theory Spec2Isabelle
  imports Complex_Main "HOL-Library.Sublist"
begin

section \<open>Payload values\<close>

text \<open>
  A payload is what \<^verbatim>\<open>json.loads\<close> returns: \<^verbatim>\<open>None\<close>, a bool, an int, a float
  (Python's parser also yields the floats \<^verbatim>\<open>nan\<close>, \<^verbatim>\<open>inf\<close> and \<^verbatim>\<open>-inf\<close>), a string, a
  list or a dict. A dict is kept as an association list read with \<open>map_of\<close>; a float
  that is a number is kept as the real number it denotes, which is exact for every
  comparison with an integer threshold that the dashboard makes.
\<close>

datatype json =
    JNull
  | JBool bool
  | JInt int
  | JFloat real
  | JNaN
  | JInf
  | JNegInf
  | JStr string
  | JList "json list"
  | JDict "(string \<times> json) list"

datatype error = AttributeError | TypeError | ValueError | OverflowError | ModelError

definition and_then :: "error + 'a \<Rightarrow> ('a \<Rightarrow> error + 'b) \<Rightarrow> error + 'b" where
  "and_then m f = (case m of Inl e \<Rightarrow> Inl e | Inr x \<Rightarrow> f x)"

text \<open>\<^verbatim>\<open>data.get(key, default)\<close>: only a dict has the method.\<close>

fun dict_get :: "json \<Rightarrow> string \<Rightarrow> json \<Rightarrow> error + json" where
  "dict_get (JDict kvs) k d = Inr (case map_of kvs k of Some v \<Rightarrow> v | None \<Rightarrow> d)"
| "dict_get _ k d = Inl AttributeError"

text \<open>\<^verbatim>\<open>key in data\<close>, used in the source only after \<^verbatim>\<open>data.get\<close> has succeeded.\<close>

fun dict_has :: "json \<Rightarrow> string \<Rightarrow> bool" where
  "dict_has (JDict kvs) k = (map_of kvs k \<noteq> None)"
| "dict_has _ k = False"

text \<open>
  \<^verbatim>\<open>x > k\<close> and \<^verbatim>\<open>x < k\<close> for an integer literal \<open>k\<close>. Python 3 raises
  \<^verbatim>\<open>TypeError\<close> when \<open>x\<close> is \<^verbatim>\<open>None\<close>, a string, a list or a dict; a bool counts as 0 or 1;
  every comparison with \<^verbatim>\<open>nan\<close> is false.
\<close>

fun py_gt :: "json \<Rightarrow> int \<Rightarrow> error + bool" where
  "py_gt (JBool b) k = Inr ((if b then 1 else 0) > k)"
| "py_gt (JInt i) k = Inr (i > k)"
| "py_gt (JFloat r) k = Inr (r > real_of_int k)"
| "py_gt JNaN k = Inr False"
| "py_gt JInf k = Inr True"
| "py_gt JNegInf k = Inr False"
| "py_gt _ k = Inl TypeError"

fun py_lt :: "json \<Rightarrow> int \<Rightarrow> error + bool" where
  "py_lt (JBool b) k = Inr ((if b then 1 else 0) < k)"
| "py_lt (JInt i) k = Inr (i < k)"
| "py_lt (JFloat r) k = Inr (r < real_of_int k)"
| "py_lt JNaN k = Inr False"
| "py_lt JInf k = Inr False"
| "py_lt JNegInf k = Inr True"
| "py_lt _ k = Inl TypeError"

text \<open>Truth value of an object in a condition (\<^verbatim>\<open>if weather_aqi and ...\<close>).\<close>

fun truthy :: "json \<Rightarrow> bool" where
  "truthy JNull = False"
| "truthy (JBool b) = b"
| "truthy (JInt i) = (i \<noteq> 0)"
| "truthy (JFloat r) = (r \<noteq> 0)"
| "truthy JNaN = True"
| "truthy JInf = True"
| "truthy JNegInf = True"
| "truthy (JStr s) = (s \<noteq> [])"
| "truthy (JList xs) = (xs \<noteq> [])"
| "truthy (JDict kvs) = (kvs \<noteq> [])"

fun is_number :: "json \<Rightarrow> bool" where
  "is_number (JBool b) = True"
| "is_number (JInt i) = True"
| "is_number (JFloat r) = True"
| "is_number JNaN = True"
| "is_number JInf = True"
| "is_number JNegInf = True"
| "is_number _ = False"

text \<open>
  A float format (\<^verbatim>\<open>:.1f\<close>, \<^verbatim>\<open>:.0f\<close>, \<^verbatim>\<open>:>6.1f\<close>) of a value. The source applies it only
  after a comparison has accepted the value. A float and a bool are always formatted;
  an int is converted to a float first, which raises \<^verbatim>\<open>OverflowError\<close> when it rounds
  to \<open>2 ^ 1024\<close> or beyond.
\<close>

fun format_float :: "json \<Rightarrow> error + unit" where
  "format_float (JBool b) = Inr ()"
| "format_float (JInt i) = (if \<bar>i\<bar> < 2 ^ 1024 - 2 ^ 970 then Inr () else Inl OverflowError)"
| "format_float (JFloat r) = Inr ()"
| "format_float JNaN = Inr ()"
| "format_float JInf = Inr ()"
| "format_float JNegInf = Inr ()"
| "format_float _ = Inl TypeError"

section \<open>extract_sensor_values\<close>

text \<open>
  Lines 2528-2544. The five flat fields are read with their defaults; when the payload
  has an \<^verbatim>\<open>environment\<close> key, \<^verbatim>\<open>env.get('temp', suhu)\<close> and
  \<^verbatim>\<open>env.get('humid', lembab)\<close> replace temperature and humidity. A payload that is not
  a dict, or an \<^verbatim>\<open>environment\<close> that is not one, raises \<^verbatim>\<open>AttributeError\<close>.
\<close>

definition extract_sensor_values ::
  "json \<Rightarrow> error + (json \<times> json \<times> json \<times> json \<times> json)" where
  "extract_sensor_values data =
     and_then (dict_get data ''suhu'' (JInt 0)) (\<lambda>suhu.
     and_then (dict_get data ''lembab'' (JInt 0)) (\<lambda>lembab.
     and_then (dict_get data ''adc_raw'' (JInt 0)) (\<lambda>adc_raw.
     and_then (dict_get data ''adc_percent'' (JInt 0)) (\<lambda>adc_percent.
     and_then (dict_get data ''local_aqi'' (JInt 0)) (\<lambda>local_aqi.
     and_then (dict_get data ''aqi_category'' (JStr ''N/A'')) (\<lambda>aqi_category.
       if dict_has data ''environment'' then
         and_then (dict_get data ''environment'' (JDict [])) (\<lambda>env.
         and_then (dict_get env ''temp'' suhu) (\<lambda>suhu'.
         and_then (dict_get env ''humid'' lembab) (\<lambda>lembab'.
           Inr (suhu', lembab', adc_raw, local_aqi, aqi_category))))
       else Inr (suhu, lembab, adc_raw, local_aqi, aqi_category)))))))"

section \<open>check_alerts\<close>

text \<open>
  Lines 2754-2785. An alert is a pair of a severity and a message. The message is an
  f-string of one of six templates around one value; the model keeps the template and
  the value, and of the rendering only whether it raises. The function returns the list
  it stores in \<^verbatim>\<open>st.session_state.alerts\<close>; when a comparison or a format raises,
  nothing is stored and the exception leaves the function.
\<close>

datatype alert_text =
    AqiBerbahaya json
  | AqiTidakSehat json
  | AccuWeatherAqi json
  | SuhuTinggi json
  | KelembabanTinggi json
  | KelembabanRendah json

type_synonym alert = "string \<times> alert_text"

definition local_aqi_rule :: "json \<Rightarrow> alert list \<Rightarrow> error + alert list" where
  "local_aqi_rule local_aqi alerts =
     and_then (py_gt local_aqi 200) (\<lambda>c.
       if c then Inr (alerts @ [(''danger'', AqiBerbahaya local_aqi)])
       else and_then (py_gt local_aqi 100) (\<lambda>c'.
         if c' then Inr (alerts @ [(''warning'', AqiTidakSehat local_aqi)])
         else Inr alerts))"

definition weather_aqi_rule :: "json \<Rightarrow> alert list \<Rightarrow> error + alert list" where
  "weather_aqi_rule weather_aqi alerts =
     (if truthy weather_aqi then
        and_then (py_gt weather_aqi 100) (\<lambda>c.
          if c then Inr (alerts @ [(''info'', AccuWeatherAqi weather_aqi)])
          else Inr alerts)
      else Inr alerts)"

definition suhu_rule :: "json \<Rightarrow> alert list \<Rightarrow> error + alert list" where
  "suhu_rule suhu alerts =
     and_then (py_gt suhu 35) (\<lambda>c.
       if c then and_then (format_float suhu) (\<lambda>u. Inr (alerts @ [(''warning'', SuhuTinggi suhu)]))
       else Inr alerts)"

definition lembab_rule :: "json \<Rightarrow> alert list \<Rightarrow> error + alert list" where
  "lembab_rule lembab alerts =
     and_then (py_gt lembab 80) (\<lambda>c.
       if c then
         and_then (format_float lembab) (\<lambda>u. Inr (alerts @ [(''warning'', KelembabanTinggi lembab)]))
       else and_then (py_lt lembab 30) (\<lambda>c'.
         if c' then
           and_then (format_float lembab) (\<lambda>u. Inr (alerts @ [(''warning'', KelembabanRendah lembab)]))
         else Inr alerts))"

definition check_alerts :: "json \<Rightarrow> error + alert list" where
  "check_alerts data =
     and_then (dict_get data ''local_aqi'' (JInt 0)) (\<lambda>local_aqi.
     and_then (dict_get data ''aqi_category'' (JStr [])) (\<lambda>aqi_category.
     and_then (dict_get data ''suhu'' (JInt 0)) (\<lambda>suhu.
     and_then (dict_get data ''lembab'' (JInt 0)) (\<lambda>lembab.
     and_then (dict_get data ''weather_aqi'' (JInt 0)) (\<lambda>weather_aqi.
     and_then (local_aqi_rule local_aqi []) (\<lambda>alerts1.
     and_then (weather_aqi_rule weather_aqi alerts1) (\<lambda>alerts2.
     and_then (suhu_rule suhu alerts2) (\<lambda>alerts3.
       lembab_rule lembab alerts3))))))))"

text \<open>
  The list \<open>check_alerts\<close> stores, read off the four values: one segment per rule,
  in the order of the source's four statements.
\<close>

definition fired_rules :: "json \<Rightarrow> json \<Rightarrow> json \<Rightarrow> json \<Rightarrow> alert list" where
  "fired_rules a w t h =
      (if py_gt a 200 = Inr True then [(''danger'', AqiBerbahaya a)]
       else if py_gt a 100 = Inr True then [(''warning'', AqiTidakSehat a)] else [])
    @ (if truthy w \<and> py_gt w 100 = Inr True then [(''info'', AccuWeatherAqi w)] else [])
    @ (if py_gt t 35 = Inr True then [(''warning'', SuhuTinggi t)] else [])
    @ (if py_gt h 80 = Inr True then [(''warning'', KelembabanTinggi h)]
       else if py_lt h 30 = Inr True then [(''warning'', KelembabanRendah h)] else [])"

text \<open>
  The values on which every comparison and every format of \<open>check_alerts\<close> goes
  through: the local AQI and the temperature are compared always, the weather AQI when
  it is true in a condition, the temperature is formatted when it exceeds 35, the
  humidity when one of its two rules fires.
\<close>

definition alerts_computable :: "json \<Rightarrow> json \<Rightarrow> json \<Rightarrow> json \<Rightarrow> bool" where
  "alerts_computable a w t h =
     (is_number a \<and> (truthy w \<longrightarrow> is_number w) \<and>
      is_number t \<and> (py_gt t 35 = Inr True \<longrightarrow> format_float t = Inr ()) \<and>
      is_number h \<and>
      (py_gt h 80 = Inr True \<or> py_lt h 30 = Inr True \<longrightarrow> format_float h = Inr ()))"

text \<open>
  Modelled from the spec: the legacy shape of a flat payload (the repository has no
  function that builds it): temperature and humidity move from the flat names \<^verbatim>\<open>suhu\<close> and
  \<^verbatim>\<open>lembab\<close> into a nested \<^verbatim>\<open>environment\<close> object under \<^verbatim>\<open>temp\<close> and \<^verbatim>\<open>humid\<close>.
\<close>

definition legacy_wrap :: "json \<Rightarrow> json" where
  "legacy_wrap P =
     (case P of
        JDict kvs \<Rightarrow>
          (case (map_of kvs ''suhu'', map_of kvs ''lembab'') of
             (Some t, Some h) \<Rightarrow>
               JDict ((''environment'', JDict [(''temp'', t), (''humid'', h)])
                      # filter (\<lambda>kv. fst kv \<noteq> ''suhu'' \<and> fst kv \<noteq> ''lembab'') kvs)
           | _ \<Rightarrow> P)
      | _ \<Rightarrow> P)"

section \<open>Time\<close>

text \<open>
  A \<^verbatim>\<open>datetime\<close> in the fixed zone UTC+7 is a number of microseconds since a local
  midnight. \<^verbatim>\<open>strftime("%H:%M:%S")\<close> keeps hour, minute and second of the day;
  \<^verbatim>\<open>strptime\<close> reads them back and raises \<^verbatim>\<open>ValueError\<close> on a field out of range.
  The text of the time stamp is kept as the triple it spells.
\<close>

type_synonym datetime = nat
type_synonym hms = "nat \<times> nat \<times> nat"

definition usec_per_day :: nat where
  "usec_per_day = 86400 * 1000000"

definition time_of_day :: "datetime \<Rightarrow> nat" where
  "time_of_day t = t mod usec_per_day"

definition strftime_HMS :: "datetime \<Rightarrow> hms" where
  "strftime_HMS t =
     (let s = time_of_day t div 1000000
      in (s div 3600, (s mod 3600) div 60, s mod 60))"

definition strptime_HMS :: "hms \<Rightarrow> error + hms" where
  "strptime_HMS x =
     (case x of (h, m, s) \<Rightarrow>
        if h < 24 \<and> m < 60 \<and> s < 60 then Inr (h, m, s) else Inl ValueError)"

section \<open>Double-precision floats\<close>

text \<open>
  A Python float is an IEEE 754 binary64 value: a number, \<^verbatim>\<open>nan\<close>, \<^verbatim>\<open>inf\<close> or \<^verbatim>\<open>-inf\<close>.
  A number is kept as the real it denotes. An arithmetic result is the exact result
  rounded to the nearest double, ties to the even significand: the unit in the last
  place of \<open>x\<close> is \<open>2\<close> to the power \<open>\<lfloor>log 2 \<bar>x\<bar>\<rfloor> - 52\<close>, and not below \<open>- 1074\<close>, the
  spacing of the subnormal numbers; a result that rounds to \<open>2 ^ 1024\<close> or beyond is
  an infinity.
\<close>

datatype float64 = F64 real | F64_nan | F64_inf | F64_neginf

definition round_half_even :: "real \<Rightarrow> int" where
  "round_half_even x =
     (let f = \<lfloor>x\<rfloor>; d = x - of_int f
      in if d < 1 / 2 then f else if 1 / 2 < d then f + 1 else if even f then f else f + 1)"

definition ulp_exponent :: "real \<Rightarrow> int" where
  "ulp_exponent x = max (\<lfloor>log 2 \<bar>x\<bar>\<rfloor> - 52) (- 1074)"

definition round_double :: "real \<Rightarrow> float64" where
  "round_double x =
     (if x = 0 then F64 0
      else let e = ulp_exponent x;
               y = of_int (round_half_even (x / 2 powi e)) * 2 powi e
           in if 2 ^ 1024 \<le> \<bar>y\<bar> then (if 0 < x then F64_inf else F64_neginf) else F64 y)"

text \<open>\<^verbatim>\<open>x * 100\<close> for a float \<open>x\<close>.\<close>

fun times_100 :: "float64 \<Rightarrow> float64" where
  "times_100 (F64 r) = round_double (r * 100)"
| "times_100 F64_nan = F64_nan"
| "times_100 F64_inf = F64_inf"
| "times_100 F64_neginf = F64_neginf"

text \<open>The larger of two floats as \<^verbatim>\<open>np.max\<close> takes it: a \<^verbatim>\<open>nan\<close> on either side wins.\<close>

fun float_max :: "float64 \<Rightarrow> float64 \<Rightarrow> float64" where
  "float_max F64_nan y = F64_nan"
| "float_max x F64_nan = F64_nan"
| "float_max F64_inf y = F64_inf"
| "float_max x F64_inf = F64_inf"
| "float_max F64_neginf y = y"
| "float_max x F64_neginf = x"
| "float_max (F64 a) (F64 b) = F64 (max a b)"

text \<open>The truth value of a float in a condition: only zero is false.\<close>

fun float_truthy :: "float64 \<Rightarrow> bool" where
  "float_truthy (F64 r) = (r \<noteq> 0)"
| "float_truthy _ = True"

text \<open>
  \<^verbatim>\<open>int(x)\<close> of a float truncates towards zero; it raises \<^verbatim>\<open>ValueError\<close> on \<^verbatim>\<open>nan\<close> and
  \<^verbatim>\<open>OverflowError\<close> on an infinity.
\<close>

definition py_int :: "real \<Rightarrow> int" where
  "py_int r = (if 0 \<le> r then \<lfloor>r\<rfloor> else \<lceil>r\<rceil>)"

fun float_int :: "float64 \<Rightarrow> error + int" where
  "float_int (F64 r) = Inr (py_int r)"
| "float_int F64_nan = Inl ValueError"
| "float_int F64_inf = Inl OverflowError"
| "float_int F64_neginf = Inl OverflowError"

section \<open>The classifier and its companions\<close>

text \<open>
  The model, the scaler and the label encoder are unpickled scikit-learn objects. Each
  is a function that returns a value or raises. A predicted class is an int or a
  string; a decoded label is a string; \<^verbatim>\<open>predict_proba\<close> is \<open>None\<close> when the model has no
  such attribute, and otherwise yields the class probabilities as floats.
\<close>

datatype class_label = ClassInt int | ClassStr string

record classifier =
  predict :: "json list \<Rightarrow> error + class_label"
  predict_proba :: "(json list \<Rightarrow> error + float64 list) option"

type_synonym scaler = "json list \<Rightarrow> error + json list"
type_synonym label_encoder = "class_label \<Rightarrow> error + string"

record ml_artifacts =
  ml_model :: "classifier option"
  ml_scaler :: "scaler option"
  ml_label_encoder :: "label_encoder option"

text \<open>The display strings of the source; the specification calls them Safe, Caution and Danger.\<close>

definition Safe :: string where "Safe = ''Aman''"
definition Caution :: string where "Caution = ''Waspada''"
definition Danger :: string where "Danger = ''Bahaya''"

definition text_map :: "(string \<times> string) list" where
  "text_map = [(''AMAN'', ''Aman''), (''HATI-HATI'', ''Waspada''), (''BAHAYA'', ''Bahaya'')]"

definition label_map :: "(int \<times> string) list" where
  "label_map = [(0, ''Aman''), (1, ''Waspada''), (2, ''Bahaya'')]"

text \<open>\<^verbatim>\<open>text_map.get(pred_text, pred_text)\<close> and \<^verbatim>\<open>label_map.get(pred_label, "Unknown")\<close>.\<close>

definition text_map_get :: "string \<Rightarrow> string" where
  "text_map_get pred_text = (case map_of text_map pred_text of Some v \<Rightarrow> v | None \<Rightarrow> pred_text)"

fun label_map_get :: "class_label \<Rightarrow> string" where
  "label_map_get (ClassInt i) = (case map_of label_map i of Some v \<Rightarrow> v | None \<Rightarrow> ''Unknown'')"
| "label_map_get (ClassStr s) = ''Unknown''"

text \<open>\<^verbatim>\<open>np.max\<close> raises \<^verbatim>\<open>ValueError\<close> on an empty array.\<close>

fun np_max :: "float64 list \<Rightarrow> error + float64" where
  "np_max [] = Inl ValueError"
| "np_max (x # xs) = Inr (fold float_max xs x)"

text \<open>
  Lines 2580-2604, the body of the \<^verbatim>\<open>try\<close> up to the assignment of the prediction.
  Line 2604, \<^verbatim>\<open>float(np.max(proba)) * 100\<close>, is a product of floats.
\<close>

definition ml_infer ::
  "classifier \<Rightarrow> scaler option \<Rightarrow> label_encoder option \<Rightarrow> json \<Rightarrow> json \<Rightarrow> json
     \<Rightarrow> error + (string \<times> float64 option)" where
  "ml_infer m sc le suhu lembab aqi =
     and_then (case sc of None \<Rightarrow> Inr [suhu, lembab, aqi] | Some s \<Rightarrow> s [suhu, lembab, aqi]) (\<lambda>X.
     and_then (predict m X) (\<lambda>pred_label.
     and_then (case le of
                 Some enc \<Rightarrow> and_then (enc pred_label) (\<lambda>pred_text. Inr (text_map_get pred_text))
               | None \<Rightarrow> Inr (label_map_get pred_label)) (\<lambda>pred_text.
     and_then (case predict_proba m of
                 None \<Rightarrow> Inr None
               | Some pp \<Rightarrow> and_then (pp X) (\<lambda>proba.
                             and_then (np_max proba) (\<lambda>mx. Inr (Some (times_100 mx))))) (\<lambda>confidence.
       Inr (pred_text, confidence)))))"

text \<open>The \<^verbatim>\<open>try\<close> with its \<^verbatim>\<open>except Exception\<close> (lines 2579-2614): what is stored as the prediction.\<close>

definition classify ::
  "classifier \<Rightarrow> scaler option \<Rightarrow> label_encoder option \<Rightarrow> json \<Rightarrow> json \<Rightarrow> json
     \<Rightarrow> string \<times> float64 option" where
  "classify m sc le suhu lembab aqi =
     (case ml_infer m sc le suhu lembab aqi of
        Inr r \<Rightarrow> r
      | Inl e \<Rightarrow> (''Error'', None))"

section \<open>Session state\<close>

text \<open>
  \<^verbatim>\<open>collections.deque(maxlen=n).append(x)\<close> appends on the right and, when the length
  then exceeds \<open>n\<close>, drops the leftmost entry.
\<close>

definition deque_append :: "nat \<Rightarrow> 'a list \<Rightarrow> 'a \<Rightarrow> 'a list" where
  "deque_append maxlen xs x = (let ys = xs @ [x] in if length ys > maxlen then tl ys else ys)"

text \<open>
  The four deques of \<^verbatim>\<open>data_history\<close>, under the keys \<^verbatim>\<open>time\<close>, \<^verbatim>\<open>suhu\<close>,
  \<^verbatim>\<open>lembab\<close> and \<^verbatim>\<open>aqi\<close>.
\<close>

record history =
  hist_time :: "datetime list"
  hist_suhu :: "json list"
  hist_lembab :: "json list"
  hist_aqi :: "json list"

text \<open>Lines 2566-2569: the four appends, each deque made with \<^verbatim>\<open>maxlen=100\<close> (lines 2355-2360).\<close>

definition history_append :: "history \<Rightarrow> datetime \<Rightarrow> json \<Rightarrow> json \<Rightarrow> json \<Rightarrow> history" where
  "history_append hist now suhu lembab local_aqi =
     hist\<lparr>hist_time := deque_append 100 (hist_time hist) now,
          hist_suhu := deque_append 100 (hist_suhu hist) suhu,
          hist_lembab := deque_append 100 (hist_lembab hist) lembab,
          hist_aqi := deque_append 100 (hist_aqi hist) local_aqi\<rparr>"

definition history_ok :: "history \<Rightarrow> bool" where
  "history_ok hist =
     (length (hist_time hist) \<le> 100 \<and>
      length (hist_suhu hist) = length (hist_time hist) \<and>
      length (hist_lembab hist) = length (hist_time hist) \<and>
      length (hist_aqi hist) = length (hist_time hist))"

text \<open>
  The entries of \<^verbatim>\<open>st.session_state\<close> that the ingestion loop reads or writes.
  \<open>last_update = None\<close> is the string \<^verbatim>\<open>"Never"\<close>. \<open>published\<close> is not an entry of the
  session: it lists, in order, the topic and payload of every message that the cached
  publisher client was handed.
\<close>

record session =
  mqtt_connected :: bool
  sensor_data :: json
  data_history :: history
  last_update :: "hms option"
  alerts :: "alert list"
  ml_prediction :: "string \<times> float64 option"
  published :: "(string \<times> json) list"

definition TOPIC_COMMAND :: string where
  "TOPIC_COMMAND = ''projek/asma/command''"

definition TOPIC_PREDICTION :: string where
  "TOPIC_PREDICTION = ''projek/asma/prediction''"

text \<open>Lines 2334-2385.\<close>

definition initial_session :: session where
  "initial_session =
     \<lparr>mqtt_connected = False,
      sensor_data = JDict
        [(''suhu'', JInt 0), (''lembab'', JInt 0), (''adc_raw'', JInt 0),
         (''adc_percent'', JInt 0), (''local_aqi'', JInt 0), (''aqi_category'', JStr ''N/A''),
         (''baseline_adc'', JInt 500), (''quality'', JStr ''N/A''), (''level'', JStr ''safe''),
         (''ip'', JStr ''N/A''), (''rssi'', JInt 0), (''uptime'', JInt 0),
         (''weather_temp'', JNull), (''weather_aqi'', JNull), (''weather_aqi_cat'', JNull)],
      data_history = \<lparr>hist_time = [], hist_suhu = [], hist_lembab = [], hist_aqi = []\<rparr>,
      last_update = None,
      alerts = [],
      ml_prediction = (''N/A'', None),
      published = []\<rparr>"

section \<open>What the loop calls\<close>

text \<open>
  \<^verbatim>\<open>logger.sensor_data\<close> (lines 127-165) prints; the model keeps whether it raises. It
  compares temperature, humidity and AQI with numbers, formats temperature and humidity
  as floats, formats \<^verbatim>\<open>adc_raw\<close> with \<^verbatim>\<open>:>6\<close> unless it is \<^verbatim>\<open>None\<close> (a list or a dict
  has no such format), and compares \<^verbatim>\<open>rssi\<close> with a number unless it is \<^verbatim>\<open>None\<close>.
  \<^verbatim>\<open>logger.ml_prediction\<close> (lines 168-205) formats the same temperature and humidity
  again and raises nothing once this call has passed.
\<close>

definition compares :: "json \<Rightarrow> error + unit" where
  "compares v = (if is_number v then Inr () else Inl TypeError)"

fun format_width :: "json \<Rightarrow> error + unit" where
  "format_width (JList xs) = Inl TypeError"
| "format_width (JDict kvs) = Inl TypeError"
| "format_width _ = Inr ()"

definition logger_sensor_data :: "json \<Rightarrow> json \<Rightarrow> json \<Rightarrow> json \<Rightarrow> json \<Rightarrow> error + unit" where
  "logger_sensor_data suhu lembab aqi rssi adc_raw =
     and_then (compares suhu) (\<lambda>_.
     and_then (compares lembab) (\<lambda>_.
     and_then (compares aqi) (\<lambda>_.
     and_then (format_float suhu) (\<lambda>_.
     and_then (format_float lembab) (\<lambda>_.
     and_then (if adc_raw \<noteq> JNull then format_width adc_raw else Inr ()) (\<lambda>_.
       if rssi \<noteq> JNull then compares rssi else Inr ()))))))"

text \<open>
  \<^verbatim>\<open>send_ml_prediction_to_esp32\<close> (lines 2471-2485). The payload carries
  \<^verbatim>\<open>int(confidence) if confidence else 0\<close>. \<open>raises\<close> says whether the publisher raises;
  the function catches that, and an \<^verbatim>\<open>int\<close> that raises, and returns \<open>False\<close> with
  nothing published.
\<close>

definition confidence_int :: "float64 option \<Rightarrow> error + int" where
  "confidence_int confidence =
     (case confidence of
        None \<Rightarrow> Inr 0
      | Some c \<Rightarrow> if float_truthy c then float_int c else Inr 0)"

definition send_ml_prediction_to_esp32 ::
  "bool \<Rightarrow> session \<Rightarrow> string \<Rightarrow> float64 option \<Rightarrow> session \<times> bool" where
  "send_ml_prediction_to_esp32 raises s status confidence =
     (if raises then (s, False)
      else (case confidence_int confidence of
              Inl e \<Rightarrow> (s, False)
            | Inr c \<Rightarrow>
                (s\<lparr>published := published s @
                     [(TOPIC_COMMAND,
                       JDict [(''cmd'', JStr ''set_status''), (''status'', JStr status),
                              (''confidence'', JInt c)])]\<rparr>,
                 True)))"

text \<open>
  \<^verbatim>\<open>publish_prediction\<close> (lines 2848-2857), the only place that publishes on the
  prediction topic. Its one caller is the legacy \<^verbatim>\<open>on_message\<close> (line 2740).
\<close>

definition publish_prediction :: "bool \<Rightarrow> session \<Rightarrow> json \<Rightarrow> session \<times> bool" where
  "publish_prediction raises s pred_data =
     (if raises then (s, False)
      else (s\<lparr>published := published s @ [(TOPIC_PREDICTION, pred_data)]\<rparr>, True))"

section \<open>process_incoming_data\<close>

text \<open>
  The worker's \<^verbatim>\<open>_on_message\<close> (lines 2418-2422) puts the receipt time, as
  \<^verbatim>\<open>%H:%M:%S\<close>, and the decoded payload on the queue.
\<close>

record queue_item =
  ts :: hms
  payload :: json

definition on_message_item :: "datetime \<Rightarrow> json \<Rightarrow> queue_item" where
  "on_message_item received data = \<lparr>ts = strftime_HMS received, payload = data\<rparr>"

text \<open>
  One turn of the \<^verbatim>\<open>while not q.empty()\<close> loop takes an item off the queue. With the
  item come what the turn reads from outside: the wall clock for the history entry and
  whether the publisher raises.
\<close>

record delivery =
  item :: queue_item
  clock :: datetime
  publish_raises :: bool

text \<open>Lines 2578-2614, for a model that is loaded.\<close>

definition ml_step ::
  "classifier \<Rightarrow> ml_artifacts \<Rightarrow> bool \<Rightarrow> session \<Rightarrow> json \<Rightarrow> json \<Rightarrow> json \<Rightarrow> session" where
  "ml_step m ml raises s suhu lembab aqi =
     (case ml_infer m (ml_scaler ml) (ml_label_encoder ml) suhu lembab aqi of
        Inr (pred_text, confidence) \<Rightarrow>
          fst (send_ml_prediction_to_esp32 raises
                 (s\<lparr>ml_prediction := (pred_text, confidence)\<rparr>) pred_text confidence)
      | Inl e \<Rightarrow> s\<lparr>ml_prediction := (''Error'', None)\<rparr>)"

text \<open>
  Lines 2552-2626, the body of the loop. The second component is \<^verbatim>\<open>data_received\<close>.
  An exception anywhere in the body is caught by the outer \<^verbatim>\<open>except Exception\<close>: the
  turn ends there and keeps what it had written.
\<close>

definition process_item :: "ml_artifacts \<Rightarrow> session \<times> bool \<Rightarrow> delivery \<Rightarrow> session \<times> bool" where
  "process_item ml sr d =
     (case sr of (s, data_received) \<Rightarrow>
        (let data = payload (item d);
             s1 = s\<lparr>sensor_data := data, last_update := Some (ts (item d))\<rparr>
         in (case extract_sensor_values data of
               Inl e \<Rightarrow> (s1, data_received)
             | Inr (suhu, lembab, adc_raw, local_aqi, aqi_category) \<Rightarrow>
                 (let s2 = s1\<lparr>data_history :=
                               history_append (data_history s1) (clock d) suhu lembab local_aqi\<rparr>
                  in (case and_then (dict_get data ''rssi'' JNull) (\<lambda>rssi.
                             logger_sensor_data suhu lembab local_aqi rssi adc_raw) of
                        Inl e \<Rightarrow> (s2, data_received)
                      | Inr u \<Rightarrow>
                          (let s3 = (case ml_model ml of
                                       None \<Rightarrow> s2
                                     | Some m \<Rightarrow>
                                         ml_step m ml (publish_raises d) s2 suhu lembab local_aqi)
                           in (case check_alerts data of
                                 Inl e \<Rightarrow> (s3, data_received)
                               | Inr al \<Rightarrow>
                                   (s3\<lparr>alerts := al, mqtt_connected := True\<rparr>, True))))))))"

text \<open>
  Lines 2628-2649. \<^verbatim>\<open>last_time\<close> takes year, month and day from \<^verbatim>\<open>now\<close>, so
  \<^verbatim>\<open>time_diff\<close> is the time of day of \<^verbatim>\<open>now\<close> minus the time of day of the stamp; it is
  compared in microseconds.
\<close>

definition time_diff_usec :: "datetime \<Rightarrow> hms \<Rightarrow> int" where
  "time_diff_usec now x =
     (case x of (h, m, s) \<Rightarrow>
        int (time_of_day now) - int ((h * 3600 + m * 60 + s) * 1000000))"

definition check_timeout :: "session \<Rightarrow> datetime \<Rightarrow> bool \<Rightarrow> session" where
  "check_timeout s now data_received =
     (case last_update s of
        None \<Rightarrow> s
      | Some stamp \<Rightarrow>
          (case strptime_HMS stamp of
             Inr last_time \<Rightarrow>
               if time_diff_usec now last_time > 30 * 1000000 then s\<lparr>mqtt_connected := False\<rparr>
               else if data_received then s\<lparr>mqtt_connected := True\<rparr>
               else s
           | Inl e \<Rightarrow> if data_received then s\<lparr>mqtt_connected := True\<rparr> else s))"

text \<open>
  One call of \<^verbatim>\<open>process_incoming_data\<close>: \<open>q\<close> lists the turns of the loop in order,
  \<open>now\<close> is the clock at the staleness check. It returns the session and
  \<^verbatim>\<open>data_received\<close>.
\<close>

definition process_incoming_data ::
  "ml_artifacts \<Rightarrow> session \<Rightarrow> delivery list \<Rightarrow> datetime \<Rightarrow> session \<times> bool" where
  "process_incoming_data ml s q now =
     (case foldl (process_item ml) (s, False) q of
        (s', data_received) \<Rightarrow> (check_timeout s' now data_received, data_received))"

text \<open>A run of the dashboard: one call per refresh, from the initial session.\<close>

record tick =
  deliveries :: "delivery list"
  tick_now :: datetime

definition run_ticks :: "ml_artifacts \<Rightarrow> session \<Rightarrow> tick list \<Rightarrow> session" where
  "run_ticks ml s ticks =
     foldl (\<lambda>s' t. fst (process_incoming_data ml s' (deliveries t) (tick_now t))) s ticks"

section \<open>mqtt_worker\<close>















section \<open>Properties of the alert evaluation\<close>

lemma and_then_Inr: "and_then m f = Inr y \<longleftrightarrow> (\<exists>x. m = Inr x \<and> f x = Inr y)"
  by (cases m) (simp_all add: and_then_def)

lemma and_then_simps [simp]:
  "and_then (Inr x) f = f x" "and_then (Inl e) f = Inl e"
  by (simp_all add: and_then_def)

lemma local_aqi_rule_Inr:
  "local_aqi_rule a xs = Inr ys \<Longrightarrow>
     ys = xs @ (if py_gt a 200 = Inr True then [(''danger'', AqiBerbahaya a)]
                else if py_gt a 100 = Inr True then [(''warning'', AqiTidakSehat a)] else [])"
  by (auto simp: local_aqi_rule_def and_then_Inr split: if_splits)

lemma weather_aqi_rule_Inr:
  "weather_aqi_rule w xs = Inr ys \<Longrightarrow>
     ys = xs @ (if truthy w \<and> py_gt w 100 = Inr True then [(''info'', AccuWeatherAqi w)] else [])"
  by (auto simp: weather_aqi_rule_def and_then_Inr split: if_splits)

lemma suhu_rule_Inr:
  "suhu_rule t xs = Inr ys \<Longrightarrow>
     ys = xs @ (if py_gt t 35 = Inr True then [(''warning'', SuhuTinggi t)] else [])"
  by (auto simp: suhu_rule_def and_then_Inr split: if_splits)

lemma format_float_number: "format_float v = Inr u \<Longrightarrow> is_number v"
  by (cases v) simp_all

lemma lembab_rule_Inr:
  "lembab_rule h xs = Inr ys \<Longrightarrow>
     ys = xs @ (if py_gt h 80 = Inr True then [(''warning'', KelembabanTinggi h)]
                else if py_lt h 30 = Inr True then [(''warning'', KelembabanRendah h)] else [])"
  by (auto simp: lembab_rule_def and_then_Inr split: if_splits)

lemma check_alerts_Inr:
  assumes "check_alerts data = Inr al"
  shows "\<exists>a w t h. dict_get data ''local_aqi'' (JInt 0) = Inr a \<and>
      dict_get data ''weather_aqi'' (JInt 0) = Inr w \<and>
      dict_get data ''suhu'' (JInt 0) = Inr t \<and>
      dict_get data ''lembab'' (JInt 0) = Inr h \<and>
      is_number a \<and> (truthy w \<longrightarrow> is_number w) \<and> is_number t \<and> is_number h \<and>
      al = fired_rules a w t h"
proof -
  from assms obtain a t h w al1 al2 al3 where
    g: "dict_get data ''local_aqi'' (JInt 0) = Inr a"
       "dict_get data ''suhu'' (JInt 0) = Inr t"
       "dict_get data ''lembab'' (JInt 0) = Inr h"
       "dict_get data ''weather_aqi'' (JInt 0) = Inr w"
    and r: "local_aqi_rule a [] = Inr al1" "weather_aqi_rule w al1 = Inr al2"
       "suhu_rule t al2 = Inr al3" "lembab_rule h al3 = Inr al"
    unfolding check_alerts_def and_then_Inr by blast
  have "al = fired_rules a w t h"
    using local_aqi_rule_Inr[OF r(1)] weather_aqi_rule_Inr[OF r(2)]
      suhu_rule_Inr[OF r(3)] lembab_rule_Inr[OF r(4)]
    unfolding fired_rules_def by simp
  moreover have "is_number a" using r(1)
    by (cases a) (simp_all add: local_aqi_rule_def)
  moreover have "truthy w \<longrightarrow> is_number w" using r(2)
    by (cases w) (auto simp: weather_aqi_rule_def split: if_splits)
  moreover have "is_number t" using r(3)
    by (cases t) (simp_all add: suhu_rule_def)
  moreover have "is_number h" using r(4)
    by (cases h) (simp_all add: lembab_rule_def)
  ultimately show ?thesis using g by blast
qed

lemma py_gt_number: "is_number v \<Longrightarrow> \<exists>b. py_gt v k = Inr b"
  by (cases v) auto

lemma py_lt_number: "is_number v \<Longrightarrow> \<exists>b. py_lt v k = Inr b"
  by (cases v) auto

lemma py_gt_mono: "py_gt v 200 = Inr True \<Longrightarrow> py_gt v 100 = Inr True"
  by (cases v) (auto split: if_splits)

lemma py_gt_lt_excl: "py_gt h 80 = Inr True \<Longrightarrow> py_lt h 30 \<noteq> Inr True"
  by (cases h) (auto split: if_splits)

lemma length_fired_rules: "length (fired_rules a w t h) \<le> 4"
  by (simp add: fired_rules_def)

lemma subseq_fired_rules:
  "subseq (fired_rules a w t h)
     [(''danger'', AqiBerbahaya a), (''warning'', AqiTidakSehat a), (''info'', AccuWeatherAqi w),
      (''warning'', SuhuTinggi t), (''warning'', KelembabanTinggi h), (''warning'', KelembabanRendah h)]"
  by (simp add: fired_rules_def)

lemma fired_rules_mem:
  "(''danger'', AqiBerbahaya a) \<in> set (fired_rules a w t h) \<longleftrightarrow> py_gt a 200 = Inr True"
  "(''warning'', AqiTidakSehat a) \<in> set (fired_rules a w t h) \<longleftrightarrow>
      py_gt a 200 \<noteq> Inr True \<and> py_gt a 100 = Inr True"
  "(''info'', AccuWeatherAqi w) \<in> set (fired_rules a w t h) \<longleftrightarrow> truthy w \<and> py_gt w 100 = Inr True"
  "(''warning'', SuhuTinggi t) \<in> set (fired_rules a w t h) \<longleftrightarrow> py_gt t 35 = Inr True"
  "(''warning'', KelembabanTinggi h) \<in> set (fired_rules a w t h) \<longleftrightarrow> py_gt h 80 = Inr True"
  "(''warning'', KelembabanRendah h) \<in> set (fired_rules a w t h) \<longleftrightarrow>
      py_gt h 80 \<noteq> Inr True \<and> py_lt h 30 = Inr True"
  by (auto simp: fired_rules_def)

lemma check_alerts_eval:
  "check_alerts (JDict kvs) =
     (let g = (\<lambda>k. case map_of kvs k of Some v \<Rightarrow> v | None \<Rightarrow> JInt 0) in
      and_then (local_aqi_rule (g ''local_aqi'') []) (\<lambda>alerts1.
      and_then (weather_aqi_rule (g ''weather_aqi'') alerts1) (\<lambda>alerts2.
      and_then (suhu_rule (g ''suhu'') alerts2) (\<lambda>alerts3.
        lembab_rule (g ''lembab'') alerts3))))"
  by (simp add: check_alerts_def)

lemmas alert_rule_defs = local_aqi_rule_def weather_aqi_rule_def suhu_rule_def lembab_rule_def

lemma check_alerts_counts:
  "check_alerts (JDict []) = Inr [(''warning'', KelembabanRendah (JInt 0))]"
  "check_alerts (JDict [(''lembab'', JInt 50)]) = Inr []"
  "check_alerts (JDict [(''suhu'', JInt 40)]) = Inr [(''warning'', SuhuTinggi (JInt 40)), (''warning'', KelembabanRendah (JInt 0))]"
  "check_alerts (JDict [(''suhu'', JInt 40), (''local_aqi'', JInt 150)]) =
      Inr [(''warning'', AqiTidakSehat (JInt 150)), (''warning'', SuhuTinggi (JInt 40)), (''warning'', KelembabanRendah (JInt 0))]"
  "check_alerts (JDict [(''local_aqi'', JInt 250), (''weather_aqi'', JInt 150), (''suhu'', JInt 36), (''lembab'', JInt 85)]) =
      Inr [(''danger'', AqiBerbahaya (JInt 250)), (''info'', AccuWeatherAqi (JInt 150)),
           (''warning'', SuhuTinggi (JInt 36)), (''warning'', KelembabanTinggi (JInt 85))]"
  by (simp_all add: check_alerts_eval alert_rule_defs)

lemma check_alerts_raises:
  assumes "dict_get data ''local_aqi'' (JInt 0) = Inr a"
      and "dict_get data ''weather_aqi'' (JInt 0) = Inr w"
      and "dict_get data ''suhu'' (JInt 0) = Inr t"
      and "dict_get data ''lembab'' (JInt 0) = Inr h"
      and "\<not> alerts_computable a w t h"
  shows "\<exists>e. check_alerts data = Inl e"
proof (cases "check_alerts data")
  case (Inl e)
  then show ?thesis by blast
next
  case (Inr al)
  from Inr obtain al1 al2 al3 where
    r: "local_aqi_rule a [] = Inr al1" "weather_aqi_rule w al1 = Inr al2"
       "suhu_rule t al2 = Inr al3" "lembab_rule h al3 = Inr al"
    using assms(1-4) unfolding check_alerts_def and_then_Inr by auto
  have "is_number a" using r(1) by (cases a) (simp_all add: local_aqi_rule_def)
  moreover have "truthy w \<longrightarrow> is_number w" using r(2)
    by (cases w) (auto simp: weather_aqi_rule_def split: if_splits)
  moreover have "is_number t" using r(3) by (cases t) (simp_all add: suhu_rule_def)
  moreover have "py_gt t 35 = Inr True \<longrightarrow> format_float t = Inr ()" using r(3)
    by (auto simp: suhu_rule_def and_then_Inr)
  moreover have "is_number h" using r(4) by (cases h) (simp_all add: lembab_rule_def)
  moreover have "py_gt h 80 = Inr True \<or> py_lt h 30 = Inr True \<longrightarrow> format_float h = Inr ()"
    using r(4) by (auto simp: lembab_rule_def and_then_Inr split: if_splits)
  ultimately have "alerts_computable a w t h" by (simp add: alerts_computable_def)
  with assms(5) show ?thesis by simp
qed

lemma local_aqi_rule_total:
  assumes "is_number a"
  shows "local_aqi_rule a xs = Inr (xs @
           (if py_gt a 200 = Inr True then [(''danger'', AqiBerbahaya a)]
            else if py_gt a 100 = Inr True then [(''warning'', AqiTidakSehat a)] else []))"
proof -
  obtain a1 a2 where a: "py_gt a 200 = Inr a1" "py_gt a 100 = Inr a2"
    using py_gt_number[OF assms] by blast
  then show ?thesis by (simp add: local_aqi_rule_def)
qed

lemma weather_aqi_rule_total:
  assumes "truthy w \<longrightarrow> is_number w"
  shows "weather_aqi_rule w xs = Inr (xs @
           (if truthy w \<and> py_gt w 100 = Inr True then [(''info'', AccuWeatherAqi w)] else []))"
proof (cases "truthy w")
  case True
  with assms obtain b where "py_gt w 100 = Inr b" using py_gt_number by blast
  with True show ?thesis by (simp add: weather_aqi_rule_def)
next
  case False
  then show ?thesis by (simp add: weather_aqi_rule_def)
qed

lemma suhu_rule_total:
  assumes "is_number t" "py_gt t 35 = Inr True \<longrightarrow> format_float t = Inr ()"
  shows "suhu_rule t xs = Inr (xs @
           (if py_gt t 35 = Inr True then [(''warning'', SuhuTinggi t)] else []))"
proof -
  obtain b where "py_gt t 35 = Inr b" using py_gt_number[OF assms(1)] by blast
  with assms(2) show ?thesis by (cases b) (simp_all add: suhu_rule_def)
qed

lemma lembab_rule_total:
  assumes "is_number h"
      and "py_gt h 80 = Inr True \<or> py_lt h 30 = Inr True \<longrightarrow> format_float h = Inr ()"
  shows "lembab_rule h xs = Inr (xs @
           (if py_gt h 80 = Inr True then [(''warning'', KelembabanTinggi h)]
            else if py_lt h 30 = Inr True then [(''warning'', KelembabanRendah h)] else []))"
proof -
  obtain b c where "py_gt h 80 = Inr b" "py_lt h 30 = Inr c"
    using py_gt_number[OF assms(1)] py_lt_number[OF assms(1)] by blast
  with assms(2) show ?thesis by (cases b; cases c) (simp_all add: lembab_rule_def)
qed

lemma check_alerts_computable:
  assumes "dict_get data ''local_aqi'' (JInt 0) = Inr a"
      and "dict_get data ''weather_aqi'' (JInt 0) = Inr w"
      and "dict_get data ''suhu'' (JInt 0) = Inr t"
      and "dict_get data ''lembab'' (JInt 0) = Inr h"
      and "alerts_computable a w t h"
  shows "check_alerts data = Inr (fired_rules a w t h)"
proof -
  obtain kvs where d: "data = JDict kvs" using assms(1) by (cases data) simp_all
  from assms(5) have n: "is_number a" "truthy w \<longrightarrow> is_number w" "is_number t" "is_number h"
    and ft: "py_gt t 35 = Inr True \<longrightarrow> format_float t = Inr ()"
    and fh: "py_gt h 80 = Inr True \<or> py_lt h 30 = Inr True \<longrightarrow> format_float h = Inr ()"
    by (simp_all add: alerts_computable_def)
  have g: "(case map_of kvs ''local_aqi'' of Some v \<Rightarrow> v | None \<Rightarrow> JInt 0) = a"
          "(case map_of kvs ''weather_aqi'' of Some v \<Rightarrow> v | None \<Rightarrow> JInt 0) = w"
          "(case map_of kvs ''suhu'' of Some v \<Rightarrow> v | None \<Rightarrow> JInt 0) = t"
          "(case map_of kvs ''lembab'' of Some v \<Rightarrow> v | None \<Rightarrow> JInt 0) = h"
    using assms(1-4) unfolding d by simp_all
  show ?thesis
    unfolding d check_alerts_eval Let_def g fired_rules_def
    by (simp only: local_aqi_rule_total[OF n(1)] weather_aqi_rule_total[OF n(2)]
          suhu_rule_total[OF n(3) ft] lembab_rule_total[OF n(4) fh] and_then_simps
          append_Nil append_assoc)
qed

text \<open>
  Claim C6. The payload \<^verbatim>\<open>{local_aqi: 250, suhu: 36, lembab: 85}\<close> yields exactly three
  alerts, in the order danger for the AQI, warning for the temperature, warning for the
  humidity; the payload \<^verbatim>\<open>{local_aqi: 40, suhu: 22, lembab: 50}\<close> yields none.
\<close>

theorem alert_examples:
  "check_alerts (JDict [(''local_aqi'', JInt 250), (''suhu'', JInt 36), (''lembab'', JInt 85)])
     = Inr [(''danger'', AqiBerbahaya (JInt 250)), (''warning'', SuhuTinggi (JInt 36)),
            (''warning'', KelembabanTinggi (JInt 85))]
   \<and> check_alerts (JDict [(''local_aqi'', JInt 40), (''suhu'', JInt 22), (''lembab'', JInt 50)]) = Inr []"
  by (simp add: check_alerts_eval alert_rule_defs)

lemma numeric_fields_computable:
  assumes "is_number a" "\<not> truthy w \<or> is_number w"
      and "format_float t = Inr ()" "format_float h = Inr ()"
  shows "alerts_computable a w t h"
  using assms format_float_number[of t] format_float_number[of h]
  by (auto simp: alerts_computable_def)

text \<open>
  Claim C5, as amended. For every reading whose local AQI is a number, whose weather
  AQI is a number or false in a condition (null, zero or absent), and whose temperature
  and humidity are numbers that a float format accepts, the alert evaluation completes;
  each rule fires exactly when its own condition on its own field holds, whatever the
  other fields are; the alerts come in the order local AQI, weather AQI, temperature,
  humidity; the two humidity rules exclude each other, as do the two AQI rules, so the
  reading yields at most four alerts; and each number from 0 to 4 is attained.
\<close>

theorem check_alerts_rules:
  assumes "dict_get data ''local_aqi'' (JInt 0) = Inr a" "is_number a"
      and "dict_get data ''weather_aqi'' (JInt 0) = Inr w" "\<not> truthy w \<or> is_number w"
      and "dict_get data ''suhu'' (JInt 0) = Inr t" "format_float t = Inr ()"
      and "dict_get data ''lembab'' (JInt 0) = Inr h" "format_float h = Inr ()"
  shows "(\<exists>al. check_alerts data = Inr al \<and>
     ((''danger'', AqiBerbahaya a) \<in> set al \<longleftrightarrow> py_gt a 200 = Inr True) \<and>
     ((''warning'', AqiTidakSehat a) \<in> set al \<longleftrightarrow> py_gt a 200 = Inr False \<and> py_gt a 100 = Inr True) \<and>
     ((''info'', AccuWeatherAqi w) \<in> set al \<longleftrightarrow> truthy w \<and> py_gt w 100 = Inr True) \<and>
     ((''warning'', SuhuTinggi t) \<in> set al \<longleftrightarrow> py_gt t 35 = Inr True) \<and>
     ((''warning'', KelembabanTinggi h) \<in> set al \<longleftrightarrow> py_gt h 80 = Inr True) \<and>
     ((''warning'', KelembabanRendah h) \<in> set al \<longleftrightarrow> py_gt h 80 = Inr False \<and> py_lt h 30 = Inr True) \<and>
     subseq al
       [(''danger'', AqiBerbahaya a), (''warning'', AqiTidakSehat a), (''info'', AccuWeatherAqi w),
        (''warning'', SuhuTinggi t), (''warning'', KelembabanTinggi h),
        (''warning'', KelembabanRendah h)] \<and>
     length al \<le> 4)
   \<and> (\<forall>n\<le>4. \<exists>d al'. check_alerts d = Inr al' \<and> length al' = n)"
proof
  have c: "alerts_computable a w t h"
    using assms(2,4,6,8) by (rule numeric_fields_computable)
  have al: "check_alerts data = Inr (fired_rules a w t h)"
    using assms(1,3,5,7) c by (rule check_alerts_computable)
  have n: "is_number a" "is_number h"
    using assms(2,8) by (auto dest: format_float_number)
  from py_gt_number[OF n(1), of 200] have a200: "py_gt a 200 \<noteq> Inr True \<longleftrightarrow> py_gt a 200 = Inr False"
    by auto
  from py_gt_number[OF n(2), of 80] have h80: "py_gt h 80 \<noteq> Inr True \<longleftrightarrow> py_gt h 80 = Inr False"
    by auto
  show "\<exists>al. check_alerts data = Inr al \<and>
     ((''danger'', AqiBerbahaya a) \<in> set al \<longleftrightarrow> py_gt a 200 = Inr True) \<and>
     ((''warning'', AqiTidakSehat a) \<in> set al \<longleftrightarrow> py_gt a 200 = Inr False \<and> py_gt a 100 = Inr True) \<and>
     ((''info'', AccuWeatherAqi w) \<in> set al \<longleftrightarrow> truthy w \<and> py_gt w 100 = Inr True) \<and>
     ((''warning'', SuhuTinggi t) \<in> set al \<longleftrightarrow> py_gt t 35 = Inr True) \<and>
     ((''warning'', KelembabanTinggi h) \<in> set al \<longleftrightarrow> py_gt h 80 = Inr True) \<and>
     ((''warning'', KelembabanRendah h) \<in> set al \<longleftrightarrow> py_gt h 80 = Inr False \<and> py_lt h 30 = Inr True) \<and>
     subseq al
       [(''danger'', AqiBerbahaya a), (''warning'', AqiTidakSehat a), (''info'', AccuWeatherAqi w),
        (''warning'', SuhuTinggi t), (''warning'', KelembabanTinggi h),
        (''warning'', KelembabanRendah h)] \<and>
     length al \<le> 4"
    apply (rule exI[of _ "fired_rules a w t h"])
    unfolding fired_rules_mem a200 h80
    using al subseq_fired_rules[of a w t h] length_fired_rules[of a w t h]
    by simp
next
  show "\<forall>n\<le>4. \<exists>d al'. check_alerts d = Inr al' \<and> length al' = n"
  proof (intro allI impI)
    fix n :: nat
    assume "n \<le> 4"
    then consider "n = 0" | "n = 1" | "n = 2" | "n = 3" | "n = 4" by linarith
    then show "\<exists>d al'. check_alerts d = Inr al' \<and> length al' = n"
    proof cases
      case 1 with check_alerts_counts(2) show ?thesis by fastforce
    next
      case 2 with check_alerts_counts(1) show ?thesis by fastforce
    next
      case 3 with check_alerts_counts(3) show ?thesis by fastforce
    next
      case 4 with check_alerts_counts(4) show ?thesis by fastforce
    next
      case 5 with check_alerts_counts(5) show ?thesis by fastforce
    qed
  qed
qed

theorem check_alerts_rules_witness:
  "check_alerts (JDict [(''local_aqi'', JInt 250), (''weather_aqi'', JNull), (''suhu'', JInt 36),
                        (''lembab'', JInt 85)])
     = Inr [(''danger'', AqiBerbahaya (JInt 250)), (''warning'', SuhuTinggi (JInt 36)),
            (''warning'', KelembabanTinggi (JInt 85))]
   \<and> (\<exists>al. check_alerts (JDict [(''local_aqi'', JInt 250), (''weather_aqi'', JNull),
                                    (''suhu'', JInt 36), (''lembab'', JInt 85)]) = Inr al \<and>
          (''danger'', AqiBerbahaya (JInt 250)) \<in> set al \<and>
          (''info'', AccuWeatherAqi JNull) \<notin> set al \<and>
          (''warning'', KelembabanRendah (JInt 85)) \<notin> set al \<and>
          length al \<le> 4)"
  using check_alerts_rules
    [of "JDict [(''local_aqi'', JInt 250), (''weather_aqi'', JNull), (''suhu'', JInt 36),
                (''lembab'', JInt 85)]" "JInt 250" JNull "JInt 36" "JInt 85"]
  by (simp add: check_alerts_eval alert_rule_defs)

text \<open>No reading yields five alerts.\<close>

theorem five_alerts_counterexample:
  "\<not> (\<exists>data al. check_alerts data = Inr al \<and> length al = 5)"
proof
  assume "\<exists>data al. check_alerts data = Inr al \<and> length al = 5"
  then obtain data al where h: "check_alerts data = Inr al" "length al = 5" by blast
  from check_alerts_Inr[OF h(1)] obtain a w t h where "al = fired_rules a w t h" by blast
  with length_fired_rules[of a w t h] h(2) show False by simp
qed

text \<open>
  Claim C10, as amended. For a payload object without a top-level \<^verbatim>\<open>lembab\<close> key the
  alert evaluation reads the humidity as the default 0. When \<^verbatim>\<open>local_aqi\<close> is a number
  or absent, \<^verbatim>\<open>weather_aqi\<close> is a number, absent or false in a condition, and \<^verbatim>\<open>suhu\<close>
  is absent or a number, and one that a float format accepts if it exceeds 35, the
  evaluation ends its list with the low-humidity warning; in every other case it raises
  and emits no alert. The nested \<^verbatim>\<open>environment\<close> object is not consulted: for the
  legacy payload below the extracted humidity is 55 and the alert still fires.
\<close>

theorem missing_lembab_low_humidity:
  assumes "\<not> dict_has data ''lembab''"
      and "dict_get data ''local_aqi'' (JInt 0) = Inr a"
      and "dict_get data ''weather_aqi'' (JInt 0) = Inr w"
      and "dict_get data ''suhu'' (JInt 0) = Inr t"
  shows "dict_get data ''lembab'' (JInt 0) = Inr (JInt 0) \<and>
         (if is_number a \<and> (truthy w \<longrightarrow> is_number w) \<and> is_number t \<and>
             (py_gt t 35 = Inr True \<longrightarrow> format_float t = Inr ())
          then \<exists>al. check_alerts data = Inr (al @ [(''warning'', KelembabanRendah (JInt 0))])
          else \<exists>e. check_alerts data = Inl e)"
proof -
  obtain kvs where d: "data = JDict kvs" using assms(2) by (cases data) simp_all
  have h: "dict_get data ''lembab'' (JInt 0) = Inr (JInt 0)"
    using assms(1) unfolding d by simp
  have c: "alerts_computable a w t (JInt 0) \<longleftrightarrow>
           is_number a \<and> (truthy w \<longrightarrow> is_number w) \<and> is_number t \<and>
           (py_gt t 35 = Inr True \<longrightarrow> format_float t = Inr ())"
    by (simp add: alerts_computable_def)
  show ?thesis
  proof (cases "alerts_computable a w t (JInt 0)")
    case True
    then have cond: "is_number a \<and> (truthy w \<longrightarrow> is_number w) \<and> is_number t \<and>
           (py_gt t 35 = Inr True \<longrightarrow> format_float t = Inr ())"
      unfolding c .
    from check_alerts_computable[OF assms(2,3,4) h True]
    have "check_alerts data = Inr (fired_rules a w t (JInt 0))" .
    then have ex: "\<exists>al. check_alerts data = Inr (al @ [(''warning'', KelembabanRendah (JInt 0))])"
      by (simp add: fired_rules_def)
    show ?thesis
      by (rule conjI[OF h], subst if_P[OF cond], rule ex)
  next
    case False
    then have ncond: "\<not> (is_number a \<and> (truthy w \<longrightarrow> is_number w) \<and> is_number t \<and>
           (py_gt t 35 = Inr True \<longrightarrow> format_float t = Inr ()))"
      unfolding c .
    from check_alerts_raises[OF assms(2,3,4) h False]
    have ex: "\<exists>e. check_alerts data = Inl e" .
    show ?thesis
      by (rule conjI[OF h], subst if_not_P[OF ncond], rule ex)
  qed
qed

theorem missing_lembab_low_humidity_witness:
  "\<not> dict_has (JDict [(''environment'', JDict [(''temp'', JInt 25), (''humid'', JInt 55)]),
                      (''local_aqi'', JInt 40)]) ''lembab''
   \<and> extract_sensor_values (JDict [(''environment'', JDict [(''temp'', JInt 25), (''humid'', JInt 55)]),
                      (''local_aqi'', JInt 40)])
       = Inr (JInt 25, JInt 55, JInt 0, JInt 40, JStr ''N/A'')
   \<and> check_alerts (JDict [(''environment'', JDict [(''temp'', JInt 25), (''humid'', JInt 55)]),
                      (''local_aqi'', JInt 40)])
       = Inr [(''warning'', KelembabanRendah (JInt 0))]
   \<and> \<not> dict_has (JDict [(''suhu'', JInt (- (2 ^ 1024))), (''local_aqi'', JInt (2 ^ 1024))]) ''lembab''
   \<and> (\<exists>al. check_alerts (JDict [(''suhu'', JInt (- (2 ^ 1024))), (''local_aqi'', JInt (2 ^ 1024))])
              = Inr (al @ [(''warning'', KelembabanRendah (JInt 0))]))
   \<and> \<not> dict_has (JDict [(''suhu'', JInt (2 ^ 1024))]) ''lembab''
   \<and> (\<exists>e. check_alerts (JDict [(''suhu'', JInt (2 ^ 1024))]) = Inl e)"
  using missing_lembab_low_humidity
    [of "JDict [(''environment'', JDict [(''temp'', JInt 25), (''humid'', JInt 55)]),
                (''local_aqi'', JInt 40)]" "JInt 40" "JInt 0" "JInt 0"]
    missing_lembab_low_humidity
    [of "JDict [(''suhu'', JInt (- (2 ^ 1024))), (''local_aqi'', JInt (2 ^ 1024))]"
        "JInt (2 ^ 1024)" "JInt 0" "JInt (- (2 ^ 1024))"]
    missing_lembab_low_humidity
    [of "JDict [(''suhu'', JInt (2 ^ 1024))]" "JInt 0" "JInt 0" "JInt (2 ^ 1024)"]
  by (simp add: extract_sensor_values_def check_alerts_eval alert_rule_defs)

text \<open>
  A payload without \<^verbatim>\<open>lembab\<close> whose temperature is a string: the comparison
  \<^verbatim>\<open>suhu > 35\<close> raises and no alert is emitted.
\<close>

theorem missing_lembab_counterexample:
  "\<not> dict_has (JDict [(''suhu'', JStr ''hot'')]) ''lembab''
   \<and> check_alerts (JDict [(''suhu'', JStr ''hot'')]) = Inl TypeError"
  by (simp add: check_alerts_eval alert_rule_defs)

section \<open>Properties of the extraction\<close>

lemma map_of_filter_keys:
  "k \<noteq> ''suhu'' \<Longrightarrow> k \<noteq> ''lembab'' \<Longrightarrow>
   map_of (filter (\<lambda>kv. fst kv \<noteq> ''suhu'' \<and> fst kv \<noteq> ''lembab'') kvs) k = map_of kvs k"
  by (induction kvs) auto

lemma extract_flat:
  assumes "map_of kvs ''suhu'' = Some t" "map_of kvs ''lembab'' = Some h" "map_of kvs ''environment'' = None"
  shows "extract_sensor_values (JDict kvs) = Inr (t, h,
           (case map_of kvs ''adc_raw'' of Some v \<Rightarrow> v | None \<Rightarrow> JInt 0),
           (case map_of kvs ''local_aqi'' of Some v \<Rightarrow> v | None \<Rightarrow> JInt 0),
           (case map_of kvs ''aqi_category'' of Some v \<Rightarrow> v | None \<Rightarrow> JStr ''N/A''))"
  using assms by (simp add: extract_sensor_values_def)

lemma extract_legacy_wrap:
  assumes "map_of kvs ''suhu'' = Some t" "map_of kvs ''lembab'' = Some h"
  shows "extract_sensor_values (legacy_wrap (JDict kvs)) = Inr (t, h,
           (case map_of kvs ''adc_raw'' of Some v \<Rightarrow> v | None \<Rightarrow> JInt 0),
           (case map_of kvs ''local_aqi'' of Some v \<Rightarrow> v | None \<Rightarrow> JInt 0),
           (case map_of kvs ''aqi_category'' of Some v \<Rightarrow> v | None \<Rightarrow> JStr ''N/A''))"
  using assms by (simp add: legacy_wrap_def extract_sensor_values_def map_of_filter_keys)

text \<open>
  The round trip on its own: a flat payload that has both \<^verbatim>\<open>suhu\<close> and \<^verbatim>\<open>lembab\<close> and
  no \<^verbatim>\<open>environment\<close> key, and its legacy shape, give the same five values, of which
  the first two are the payload's temperature and humidity.
\<close>

theorem extract_round_trip:
  assumes "map_of kvs ''suhu'' = Some t" "map_of kvs ''lembab'' = Some h"
      and "map_of kvs ''environment'' = None"
  shows "extract_sensor_values (legacy_wrap (JDict kvs)) = extract_sensor_values (JDict kvs) \<and>
         (\<exists>adc_raw local_aqi aqi_category.
            extract_sensor_values (JDict kvs) = Inr (t, h, adc_raw, local_aqi, aqi_category))"
  using extract_flat[OF assms] extract_legacy_wrap[OF assms(1,2)] by simp

theorem extract_round_trip_witness:
  "extract_sensor_values
     (legacy_wrap (JDict [(''suhu'', JFloat (57/2)), (''lembab'', JInt 60), (''local_aqi'', JInt 45)]))
   = Inr (JFloat (57/2), JInt 60, JInt 0, JInt 45, JStr ''N/A'')
   \<and> legacy_wrap (JDict [(''suhu'', JFloat (57/2)), (''lembab'', JInt 60), (''local_aqi'', JInt 45)])
   = JDict [(''environment'', JDict [(''temp'', JFloat (57/2)), (''humid'', JInt 60)]),
            (''local_aqi'', JInt 45)]"
  using extract_round_trip
    [of "[(''suhu'', JFloat (57/2)), (''lembab'', JInt 60), (''local_aqi'', JInt 45)]"
        "JFloat (57/2)" "JInt 60"]
  by (simp add: legacy_wrap_def extract_sensor_values_def)

text \<open>
  Claim C7. A payload that carries both shapes: the flat names give 25 and 60, the
  nested object gives 99 and 1, and the extraction returns the nested values.
\<close>

theorem extract_both_shapes:
  "extract_sensor_values
     (JDict [(''suhu'', JInt 25), (''lembab'', JInt 60),
             (''environment'', JDict [(''temp'', JInt 99), (''humid'', JInt 1)])])
   = Inr (JInt 99, JInt 1, JInt 0, JInt 0, JStr ''N/A'')"
  by (simp add: extract_sensor_values_def)

section \<open>Properties of the classification\<close>

lemma floor_log2:
  assumes "2 ^ n \<le> x" "x < 2 ^ Suc n"
  shows "\<lfloor>log 2 x\<rfloor> = int n"
proof -
  have "0 < (2::real) ^ n" by simp
  with assms(1) have x: "0 < x" by linarith
  have "2 powr real_of_int (int n) \<le> x \<and> x < 2 powr (real_of_int (int n) + 1)"
    using assms by (simp add: powr_realpow powr_add)
  then show ?thesis using x by (simp add: floor_log_eq_powr_iff)
qed

lemma fold_float_max_finite:
  "fold float_max (map F64 rs) (F64 r) = F64 (fold max rs r)"
  by (induction rs arbitrary: r) simp_all

lemma np_max_finite:
  assumes "np_max (map F64 rs) = Inr mx"
  shows "rs \<noteq> [] \<and> mx = F64 (Max (set rs))"
proof (cases rs)
  case Nil
  with assms show ?thesis by simp
next
  case (Cons r rs')
  with assms have "mx = F64 (fold max rs' r)" by (simp add: fold_float_max_finite)
  also have "fold max rs' r = Max (set (r # rs'))" by (rule Max.set_eq_fold[symmetric])
  finally show ?thesis using Cons by simp
qed

lemma float_max_nan [simp]: "float_max x F64_nan = F64_nan"
  by (cases x) simp_all

lemma fold_float_max_nan_acc: "fold float_max xs F64_nan = F64_nan"
  by (induction xs) simp_all

lemma fold_float_max_nan: "F64_nan \<in> set xs \<Longrightarrow> fold float_max xs x = F64_nan"
  by (induction xs arbitrary: x) (auto simp: fold_float_max_nan_acc)

lemma np_max_nan:
  assumes "np_max proba = Inr mx" "F64_nan \<in> set proba"
  shows "mx = F64_nan"
proof (cases proba)
  case Nil
  with assms show ?thesis by simp
next
  case (Cons x xs)
  show ?thesis
  proof (cases "x = F64_nan")
    case True
    with assms Cons show ?thesis by (simp add: fold_float_max_nan_acc)
  next
    case False
    with assms Cons have "F64_nan \<in> set xs" by auto
    with assms Cons show ?thesis by (simp add: fold_float_max_nan)
  qed
qed

lemma np_max_nonempty: "np_max proba = Inr mx \<Longrightarrow> proba \<noteq> []"
  by (cases proba) simp_all

text \<open>
  The double nearest to 0.57 is \<open>5134103575202365 / 2 ^ 53\<close>. Its exact product with
  100 lies between two doubles and is rounded down, to the double that prints as
  56.99999999999999.
\<close>

lemma times_100_of_057:
  "times_100 (F64 (5134103575202365 / 2 ^ 53)) = F64 (8022036836253695 / 2 ^ 47)"
proof -
  have l: "\<lfloor>log 2 \<bar>5134103575202365 / 2 ^ 53 * 100 :: real\<bar>\<rfloor> = int 5"
    by (rule floor_log2) simp_all
  show ?thesis
    unfolding times_100.simps round_double_def ulp_exponent_def l
    by (simp add: round_half_even_def Let_def power_int_minus)
qed

text \<open>The double nearest to 0.9 is \<open>8106479329266893 / 2 ^ 53\<close>; its product is rounded to 90.\<close>

lemma times_100_of_09:
  "times_100 (F64 (8106479329266893 / 2 ^ 53)) = F64 90"
proof -
  have l: "\<lfloor>log 2 \<bar>8106479329266893 / 2 ^ 53 * 100 :: real\<bar>\<rfloor> = int 6"
    by (rule floor_log2) simp_all
  show ?thesis
    unfolding times_100.simps round_double_def ulp_exponent_def l
    by (simp add: round_half_even_def Let_def power_int_minus)
qed

lemma times_100_of_half: "times_100 (F64 (1 / 2)) = F64 50"
proof -
  have l: "\<lfloor>log 2 \<bar>1 / 2 * 100 :: real\<bar>\<rfloor> = int 5"
    by (rule floor_log2) simp_all
  show ?thesis
    unfolding times_100.simps round_double_def ulp_exponent_def l
    by (simp add: round_half_even_def Let_def power_int_minus)
qed

lemma text_map_get_cases:
  "text_map_get decoded =
     (if decoded = ''AMAN'' then Safe else if decoded = ''HATI-HATI'' then Caution
      else if decoded = ''BAHAYA'' then Danger else decoded)"
  by (simp add: text_map_get_def text_map_def Safe_def Caution_def Danger_def)

lemma label_map_get_cases:
  "label_map_get pred_label =
     (if pred_label = ClassInt 0 then Safe else if pred_label = ClassInt 1 then Caution
      else if pred_label = ClassInt 2 then Danger else ''Unknown'')"
  by (cases pred_label) (simp_all add: label_map_def Safe_def Caution_def Danger_def)

lemma ml_infer_Inr:
  assumes "ml_infer m sc le suhu lembab aqi = Inr (label, confidence)"
  shows "\<exists>X pred_label.
      (case sc of None \<Rightarrow> Inr [suhu, lembab, aqi] | Some s \<Rightarrow> s [suhu, lembab, aqi]) = Inr X \<and>
      predict m X = Inr pred_label \<and>
      (case le of
         Some enc \<Rightarrow> and_then (enc pred_label) (\<lambda>pred_text. Inr (text_map_get pred_text))
       | None \<Rightarrow> Inr (label_map_get pred_label)) = Inr label \<and>
      (case predict_proba m of
         None \<Rightarrow> Inr None
       | Some pp \<Rightarrow> and_then (pp X) (\<lambda>proba.
                     and_then (np_max proba) (\<lambda>mx. Inr (Some (times_100 mx))))) = Inr confidence"
  using assms unfolding ml_infer_def and_then_Inr by auto

lemma label_map_get_range: "label_map_get pred_label \<in> {Safe, Caution, Danger, ''Unknown''}"
  unfolding label_map_get_cases by simp

lemma text_map_get_range:
  "text_map_get decoded \<in> {Safe, Caution, Danger} \<or>
   (text_map_get decoded = decoded \<and> decoded \<notin> {''AMAN'', ''HATI-HATI'', ''BAHAYA''})"
  unfolding text_map_get_cases by simp

lemma ml_infer_label:
  assumes "ml_infer m sc le suhu lembab aqi = Inr (label, confidence)"
  shows "label \<in> {Safe, Caution, Danger, ''Unknown''} \<or>
         (\<exists>enc pred_label. le = Some enc \<and> enc pred_label = Inr label \<and>
            label \<notin> {''AMAN'', ''HATI-HATI'', ''BAHAYA''})"
proof -
  from ml_infer_Inr[OF assms] obtain X :: "json list" and pred_label where
    l: "(case le of
         Some enc \<Rightarrow> and_then (enc pred_label) (\<lambda>pred_text. Inr (text_map_get pred_text))
       | None \<Rightarrow> Inr (label_map_get pred_label)) = Inr label"
    by blast
  show ?thesis
  proof (cases le)
    case None
    with l have "label = label_map_get pred_label" by simp
    with label_map_get_range[of pred_label] show ?thesis by blast
  next
    case (Some enc)
    with l obtain decoded where d: "enc pred_label = Inr decoded" "label = text_map_get decoded"
      by (auto simp: and_then_Inr)
    from text_map_get_range[of decoded] show ?thesis
    proof
      assume "text_map_get decoded \<in> {Safe, Caution, Danger}"
      with d(2) show ?thesis by blast
    next
      assume a: "text_map_get decoded = decoded \<and> decoded \<notin> {''AMAN'', ''HATI-HATI'', ''BAHAYA''}"
      with d have "enc pred_label = Inr label" "label \<notin> {''AMAN'', ''HATI-HATI'', ''BAHAYA''}"
        by simp_all
      with Some show ?thesis by blast
    qed
  qed
qed

text \<open>
  Claim C8, as amended. When the inference raises nothing: the feature vector is
  temperature, humidity, AQI in this order; a scaler that is present is applied to it,
  and both the prediction and the probabilities are taken on the scaled vector; with a
  label decoder the decoded string goes through the table AMAN to Safe, HATI-HATI to
  Caution, BAHAYA to Danger, any other string unchanged; without one the class goes
  through 0 to Safe, 1 to Caution, 2 to Danger, anything else to Unknown; when the
  classifier has \<^verbatim>\<open>predict_proba\<close> the confidence is the float product of the largest
  class probability and 100, which for finite probabilities is their exact product
  rounded to the nearest double and for a NaN among them is NaN; otherwise the
  confidence is absent.
\<close>

theorem classify_reference_pipeline:
  assumes "ml_infer m sc le suhu lembab aqi = Inr (label, confidence)"
  shows "\<exists>X pred_label.
      (case sc of None \<Rightarrow> X = [suhu, lembab, aqi] | Some s \<Rightarrow> s [suhu, lembab, aqi] = Inr X) \<and>
      predict m X = Inr pred_label \<and>
      (case le of
         Some enc \<Rightarrow>
           \<exists>decoded. enc pred_label = Inr decoded \<and>
             label = (if decoded = ''AMAN'' then Safe else if decoded = ''HATI-HATI'' then Caution
                      else if decoded = ''BAHAYA'' then Danger else decoded)
       | None \<Rightarrow>
           label = (if pred_label = ClassInt 0 then Safe else if pred_label = ClassInt 1 then Caution
                    else if pred_label = ClassInt 2 then Danger else ''Unknown'')) \<and>
      (case predict_proba m of
         None \<Rightarrow> confidence = None
       | Some pp \<Rightarrow>
           \<exists>proba mx. pp X = Inr proba \<and> proba \<noteq> [] \<and> np_max proba = Inr mx \<and>
             confidence = Some (times_100 mx) \<and>
             (\<forall>rs. proba = map F64 rs \<longrightarrow>
                confidence = Some (round_double (Max (set rs) * 100))) \<and>
             (F64_nan \<in> set proba \<longrightarrow> confidence = Some F64_nan)) \<and>
      classify m sc le suhu lembab aqi = (label, confidence)"
proof -
  from ml_infer_Inr[OF assms] obtain X pred_label where
    x: "(case sc of None \<Rightarrow> Inr [suhu, lembab, aqi] | Some s \<Rightarrow> s [suhu, lembab, aqi]) = Inr X"
    and p: "predict m X = Inr pred_label"
    and l: "(case le of
         Some enc \<Rightarrow> and_then (enc pred_label) (\<lambda>pred_text. Inr (text_map_get pred_text))
       | None \<Rightarrow> Inr (label_map_get pred_label)) = Inr label"
    and c: "(case predict_proba m of
         None \<Rightarrow> Inr None
       | Some pp \<Rightarrow> and_then (pp X) (\<lambda>proba.
                     and_then (np_max proba) (\<lambda>mx. Inr (Some (times_100 mx))))) = Inr confidence"
    by blast
  have x': "case sc of None \<Rightarrow> X = [suhu, lembab, aqi] | Some s \<Rightarrow> s [suhu, lembab, aqi] = Inr X"
    using x by (cases sc) auto
  have l': "case le of
         Some enc \<Rightarrow>
           \<exists>decoded. enc pred_label = Inr decoded \<and>
             label = (if decoded = ''AMAN'' then Safe else if decoded = ''HATI-HATI'' then Caution
                      else if decoded = ''BAHAYA'' then Danger else decoded)
       | None \<Rightarrow>
           label = (if pred_label = ClassInt 0 then Safe else if pred_label = ClassInt 1 then Caution
                    else if pred_label = ClassInt 2 then Danger else ''Unknown'')"
  proof (cases le)
    case None
    with l show ?thesis by (simp add: label_map_get_cases)
  next
    case (Some enc)
    with l obtain decoded where "enc pred_label = Inr decoded" "label = text_map_get decoded"
      by (auto simp: and_then_Inr)
    with Some show ?thesis by (simp add: text_map_get_cases)
  qed
  have c': "case predict_proba m of
         None \<Rightarrow> confidence = None
       | Some pp \<Rightarrow>
           \<exists>proba mx. pp X = Inr proba \<and> proba \<noteq> [] \<and> np_max proba = Inr mx \<and>
             confidence = Some (times_100 mx) \<and>
             (\<forall>rs. proba = map F64 rs \<longrightarrow>
                confidence = Some (round_double (Max (set rs) * 100))) \<and>
             (F64_nan \<in> set proba \<longrightarrow> confidence = Some F64_nan)"
  proof (cases "predict_proba m")
    case None
    with c show ?thesis by auto
  next
    case (Some pp)
    with c obtain proba mx where p: "pp X = Inr proba" "np_max proba = Inr mx"
      "confidence = Some (times_100 mx)"
      by (auto simp: and_then_Inr)
    have f: "\<forall>rs. proba = map F64 rs \<longrightarrow> confidence = Some (round_double (Max (set rs) * 100))"
      using p(2,3) np_max_finite by fastforce
    have n: "F64_nan \<in> set proba \<longrightarrow> confidence = Some F64_nan"
      using p(2,3) np_max_nan by fastforce
    from Some p f n np_max_nonempty[OF p(2)] show ?thesis by auto
  qed
  have "classify m sc le suhu lembab aqi = (label, confidence)"
    using assms by (simp add: classify_def)
  with x' p l' c' show ?thesis by blast
qed

theorem classify_reference_pipeline_witness:
  "ml_infer \<lparr>predict = (\<lambda>X. if X = [JFloat 1, JFloat 2, JFloat 3] then Inr (ClassInt 1) else Inl ModelError),
             predict_proba = Some (\<lambda>X. Inr [F64 (1 / 4), F64 (1 / 2), F64 (1 / 4)])\<rparr>
      (Some (\<lambda>X. Inr [JFloat 1, JFloat 2, JFloat 3])) (Some (\<lambda>c. Inr ''HATI-HATI''))
      (JFloat (57 / 2)) (JInt 60) (JInt 45)
     = Inr (''Waspada'', Some (F64 50))
   \<and> classify \<lparr>predict = (\<lambda>X. if X = [JFloat 1, JFloat 2, JFloat 3] then Inr (ClassInt 1) else Inl ModelError),
             predict_proba = Some (\<lambda>X. Inr [F64 (1 / 4), F64 (1 / 2), F64 (1 / 4)])\<rparr>
      (Some (\<lambda>X. Inr [JFloat 1, JFloat 2, JFloat 3])) (Some (\<lambda>c. Inr ''HATI-HATI''))
      (JFloat (57 / 2)) (JInt 60) (JInt 45)
     = (Caution, Some (round_double (Max (set [1 / 4, 1 / 2, 1 / 4]) * 100)))"
proof -
  have h: "ml_infer \<lparr>predict = (\<lambda>X. if X = [JFloat 1, JFloat 2, JFloat 3] then Inr (ClassInt 1) else Inl ModelError),
             predict_proba = Some (\<lambda>X. Inr [F64 (1 / 4), F64 (1 / 2), F64 (1 / 4)])\<rparr>
      (Some (\<lambda>X. Inr [JFloat 1, JFloat 2, JFloat 3])) (Some (\<lambda>c. Inr ''HATI-HATI''))
      (JFloat (57 / 2)) (JInt 60) (JInt 45)
     = Inr (''Waspada'', Some (F64 50))"
    using times_100_of_half
    by (simp add: ml_infer_def text_map_get_def text_map_def del: times_100.simps)
  from classify_reference_pipeline[OF h] have
    "\<forall>rs. [F64 (1 / 4), F64 (1 / 2), F64 (1 / 4)] = map F64 rs \<longrightarrow>
        Some (F64 50) = Some (round_double (Max (set rs) * 100))"
    and c: "classify \<lparr>predict = (\<lambda>X. if X = [JFloat 1, JFloat 2, JFloat 3] then Inr (ClassInt 1) else Inl ModelError),
             predict_proba = Some (\<lambda>X. Inr [F64 (1 / 4), F64 (1 / 2), F64 (1 / 4)])\<rparr>
      (Some (\<lambda>X. Inr [JFloat 1, JFloat 2, JFloat 3])) (Some (\<lambda>c. Inr ''HATI-HATI''))
      (JFloat (57 / 2)) (JInt 60) (JInt 45) = (''Waspada'', Some (F64 50))"
    by auto
  then have "Some (F64 50) = Some (round_double (Max (set [1 / 4, 1 / 2, 1 / 4]) * 100))"
    by (metis list.simps(8,9))
  with h c show ?thesis by (simp add: Caution_def)
qed

text \<open>
  Class probabilities 0.57 and 0.43, as the doubles nearest to them: the confidence is
  the double 56.99999999999999, not 100 times the larger probability, and the command
  sent to the device carries 56.
\<close>

theorem confidence_rounding_counterexample:
  "ml_infer \<lparr>predict = (\<lambda>X. Inr (ClassInt 0)),
        predict_proba = Some (\<lambda>X. Inr [F64 (5134103575202365 / 2 ^ 53),
                                       F64 (7746191359077253 / 2 ^ 54)])\<rparr> None None (JFloat (57 / 2)) (JInt 60) (JInt 45)
     = Inr (''Aman'', Some (F64 (8022036836253695 / 2 ^ 47)))
   \<and> (8022036836253695 / 2 ^ 47 :: real)
        \<noteq> 100 * Max (set [5134103575202365 / 2 ^ 53, 7746191359077253 / 2 ^ 54])
   \<and> confidence_int (Some (F64 (8022036836253695 / 2 ^ 47))) = Inr 56"
  using times_100_of_057
  by (simp add: ml_infer_def label_map_def confidence_int_def py_int_def del: times_100.simps)

lemma send_cases:
  "fst (send_ml_prediction_to_esp32 raises s status confidence) = s \<or>
   (\<exists>msg. fst (send_ml_prediction_to_esp32 raises s status confidence)
            = s\<lparr>published := published s @ [(TOPIC_COMMAND, msg)]\<rparr>)"
  by (auto simp: send_ml_prediction_to_esp32_def split: sum.split)

lemma ml_prediction_send [simp]:
  "ml_prediction (fst (send_ml_prediction_to_esp32 raises s status confidence)) = ml_prediction s"
  using send_cases[of raises s status confidence] by auto

lemma data_history_send [simp]:
  "data_history (fst (send_ml_prediction_to_esp32 raises s status confidence)) = data_history s"
  using send_cases[of raises s status confidence] by auto

text \<open>
  Claim C1, as amended. For every feature triple the inference step yields a pair of a
  label and a confidence, which is what the loop stores as the prediction. The label is
  Safe, Caution, Danger, Unknown or Error, or, with a label decoder, a decoded string
  outside the display table, passed through as it is. Any exception during feature
  building, scaling, prediction, decoding or probability estimation yields the label
  Error with no confidence, and the loop carries on with the prediction changed and
  nothing else.
\<close>

theorem classify_never_raises:
  "(\<exists>label confidence.
      classify m (ml_scaler ml) (ml_label_encoder ml) suhu lembab aqi = (label, confidence) \<and>
      ml_prediction (ml_step m ml raises s suhu lembab aqi) = (label, confidence) \<and>
      (label \<in> {Safe, Caution, Danger, ''Unknown'', ''Error''} \<or>
       (\<exists>enc pred_label. ml_label_encoder ml = Some enc \<and> enc pred_label = Inr label \<and>
          label \<notin> {''AMAN'', ''HATI-HATI'', ''BAHAYA''})))
   \<and> (\<forall>e. ml_infer m (ml_scaler ml) (ml_label_encoder ml) suhu lembab aqi = Inl e \<longrightarrow>
          classify m (ml_scaler ml) (ml_label_encoder ml) suhu lembab aqi = (''Error'', None) \<and>
          ml_step m ml raises s suhu lembab aqi = s\<lparr>ml_prediction := (''Error'', None)\<rparr>)"
proof (cases "ml_infer m (ml_scaler ml) (ml_label_encoder ml) suhu lembab aqi")
  case (Inl e)
  then show ?thesis by (simp add: classify_def ml_step_def)
next
  case (Inr r)
  obtain label confidence where r: "r = (label, confidence)" by (cases r)
  have c: "classify m (ml_scaler ml) (ml_label_encoder ml) suhu lembab aqi = (label, confidence)"
    using Inr r by (simp add: classify_def)
  have p: "ml_prediction (ml_step m ml raises s suhu lembab aqi) = (label, confidence)"
    using Inr r by (simp add: ml_step_def)
  from ml_infer_label[OF Inr[unfolded r]]
  have "label \<in> {Safe, Caution, Danger, ''Unknown'', ''Error''} \<or>
       (\<exists>enc pred_label. ml_label_encoder ml = Some enc \<and> enc pred_label = Inr label \<and>
          label \<notin> {''AMAN'', ''HATI-HATI'', ''BAHAYA''})"
    by blast
  with c p Inr show ?thesis by simp
qed

theorem classify_never_raises_witness:
  "ml_infer \<lparr>predict = (\<lambda>X. Inl ModelError), predict_proba = None\<rparr> None None
      (JStr ''hot'') JNull (JInt (- 5)) = Inl ModelError
   \<and> classify \<lparr>predict = (\<lambda>X. Inl ModelError), predict_proba = None\<rparr> None None
      (JStr ''hot'') JNull (JInt (- 5)) = (''Error'', None)"
  using classify_never_raises
    [of "\<lparr>predict = (\<lambda>X. Inl ModelError), predict_proba = None\<rparr>"
        "\<lparr>ml_model = None, ml_scaler = None, ml_label_encoder = None\<rparr>"
        "JStr ''hot''" JNull "JInt (- 5)" False initial_session]
  by (simp add: ml_infer_def)

text \<open>A label decoder whose class 0 is the string SEDANG: the label is none of the five.\<close>

theorem classify_label_set_counterexample:
  "fst (classify \<lparr>predict = (\<lambda>X. Inr (ClassInt 0)), predict_proba = None\<rparr>
          None (Some (\<lambda>c. Inr ''SEDANG'')) (JFloat (57/2)) (JInt 60) (JInt 45))
     \<notin> {Safe, Caution, Danger, ''Unknown'', ''Error''}"
  by (simp add: classify_def ml_infer_def text_map_get_def text_map_def Safe_def Caution_def Danger_def)

section \<open>Properties of the ingestion loop\<close>

lemma length_deque_append:
  "length xs \<le> n \<Longrightarrow> length (deque_append n xs x) = min n (Suc (length xs))"
  by (auto simp: deque_append_def Let_def)

lemma deque_append_full:
  "length xs = n \<Longrightarrow> 0 < n \<Longrightarrow> deque_append n xs x = tl xs @ [x]"
  by (cases xs) (auto simp: deque_append_def Let_def)

lemma history_ok_append:
  assumes "history_ok hist"
  shows "history_ok (history_append hist now suhu lembab local_aqi)"
  using assms by (simp add: history_ok_def history_append_def length_deque_append)

lemma history_append_full:
  assumes "history_ok hist" "length (hist_time hist) = 100"
  shows "history_append hist now suhu lembab local_aqi =
           \<lparr>hist_time = tl (hist_time hist) @ [now], hist_suhu = tl (hist_suhu hist) @ [suhu],
            hist_lembab = tl (hist_lembab hist) @ [lembab], hist_aqi = tl (hist_aqi hist) @ [local_aqi]\<rparr>"
  using assms by (simp add: history_ok_def history_append_def deque_append_full)

lemma data_history_ml_step [simp]:
  "data_history (ml_step m ml raises s suhu lembab aqi) = data_history s"
  by (simp add: ml_step_def split: sum.split prod.split)

lemma data_history_process_item:
  "data_history (fst (process_item ml (s, r) d)) =
     (case extract_sensor_values (payload (item d)) of
        Inl e \<Rightarrow> data_history s
      | Inr (suhu, lembab, adc_raw, local_aqi, aqi_category) \<Rightarrow>
          history_append (data_history s) (clock d) suhu lembab local_aqi)"
  by (simp add: process_item_def Let_def split: sum.split prod.split option.split)

lemma history_ok_process_item:
  assumes "history_ok (data_history (fst sr))"
  shows "history_ok (data_history (fst (process_item ml sr d)))"
proof -
  obtain s r where sr: "sr = (s, r)" by (cases sr)
  show ?thesis
    using assms unfolding sr data_history_process_item
    by (auto split: sum.split prod.split intro: history_ok_append)
qed

lemma history_ok_foldl:
  "history_ok (data_history (fst sr)) \<Longrightarrow>
   history_ok (data_history (fst (foldl (process_item ml) sr q)))"
  by (induction q arbitrary: sr) (simp_all add: history_ok_process_item)

lemma data_history_check_timeout [simp]:
  "data_history (check_timeout s now r) = data_history s"
  by (simp add: check_timeout_def split: option.split sum.split)

lemma history_ok_process_incoming_data:
  assumes "history_ok (data_history s)"
  shows "history_ok (data_history (fst (process_incoming_data ml s q now)))"
proof -
  have "history_ok (data_history (fst (foldl (process_item ml) (s, False) q)))"
    using assms by (intro history_ok_foldl) simp
  then show ?thesis
    by (cases "foldl (process_item ml) (s, False) q") (simp add: process_incoming_data_def)
qed

lemma history_ok_run_ticks:
  "history_ok (data_history s) \<Longrightarrow> history_ok (data_history (run_ticks ml s ticks))"
  unfolding run_ticks_def
  by (induction ticks arbitrary: s) (simp_all add: history_ok_process_incoming_data)

lemma history_ok_initial: "history_ok (data_history initial_session)"
  by (simp add: initial_session_def history_ok_def)

text \<open>
  Claim C2. The four series start empty; whatever the ticks deliver, after any run of
  the ingestion loop each series has at most 100 entries and all four have the same
  length; a turn of the loop whose payload can be extracted appends one entry to each
  series, and on full series the append drops the oldest entry of each.
\<close>

theorem history_window_invariant:
  "history_ok (data_history initial_session) \<and>
   (history_ok (data_history s) \<longrightarrow> history_ok (data_history (run_ticks ml s ticks))) \<and>
   (extract_sensor_values (payload (item d)) = Inr (suhu, lembab, adc_raw, local_aqi, aqi_category) \<longrightarrow>
      data_history (fst (process_item ml (s, r) d)) =
        history_append (data_history s) (clock d) suhu lembab local_aqi) \<and>
   (history_ok hist \<and> length (hist_time hist) = 100 \<longrightarrow>
      history_append hist now suhu lembab local_aqi =
        \<lparr>hist_time = tl (hist_time hist) @ [now], hist_suhu = tl (hist_suhu hist) @ [suhu],
         hist_lembab = tl (hist_lembab hist) @ [lembab],
         hist_aqi = tl (hist_aqi hist) @ [local_aqi]\<rparr>)"
  using history_ok_initial history_ok_run_ticks[of s ml ticks]
    history_append_full[of hist now suhu lembab local_aqi]
  by (simp add: data_history_process_item)

theorem history_window_invariant_witness:
  "history_ok (data_history initial_session)
   \<and> history_ok (data_history (run_ticks \<lparr>ml_model = None, ml_scaler = None, ml_label_encoder = None\<rparr>
        initial_session
        [\<lparr>deliveries = [\<lparr>item = \<lparr>ts = (10, 0, 0),
                                     payload = JDict [(''suhu'', JFloat (57/2)), (''lembab'', JInt 60),
                                                      (''local_aqi'', JInt 45)]\<rparr>,
                          clock = 36001000000, publish_raises = False\<rparr>],
          tick_now = 36001000000\<rparr>]))
   \<and> extract_sensor_values (JDict [(''suhu'', JFloat (57/2)), (''lembab'', JInt 60), (''local_aqi'', JInt 45)])
        = Inr (JFloat (57/2), JInt 60, JInt 0, JInt 45, JStr ''N/A'')
   \<and> data_history (fst (process_item \<lparr>ml_model = None, ml_scaler = None, ml_label_encoder = None\<rparr>
        (initial_session, False)
        \<lparr>item = \<lparr>ts = (10, 0, 0),
                  payload = JDict [(''suhu'', JFloat (57/2)), (''lembab'', JInt 60),
                                   (''local_aqi'', JInt 45)]\<rparr>,
         clock = 36001000000, publish_raises = False\<rparr>))
       = \<lparr>hist_time = [36001000000], hist_suhu = [JFloat (57/2)], hist_lembab = [JInt 60],
          hist_aqi = [JInt 45]\<rparr>
   \<and> history_ok \<lparr>hist_time = replicate 100 0, hist_suhu = replicate 100 JNull,
                  hist_lembab = replicate 100 JNull, hist_aqi = replicate 100 JNull\<rparr>
   \<and> history_append \<lparr>hist_time = replicate 100 0, hist_suhu = replicate 100 JNull,
                  hist_lembab = replicate 100 JNull, hist_aqi = replicate 100 JNull\<rparr>
         7 (JFloat (57/2)) (JInt 60) (JInt 45)
       = \<lparr>hist_time = tl (replicate 100 0) @ [7],
          hist_suhu = tl (replicate 100 JNull) @ [JFloat (57/2)],
          hist_lembab = tl (replicate 100 JNull) @ [JInt 60],
          hist_aqi = tl (replicate 100 JNull) @ [JInt 45]\<rparr>"
proof -
  have e: "extract_sensor_values (JDict [(''suhu'', JFloat (57/2)), (''lembab'', JInt 60), (''local_aqi'', JInt 45)])
        = Inr (JFloat (57/2), JInt 60, JInt 0, JInt 45, JStr ''N/A'')"
    by (simp add: extract_sensor_values_def)
  have h: "history_ok \<lparr>hist_time = replicate 100 0, hist_suhu = replicate 100 JNull,
                  hist_lembab = replicate 100 JNull, hist_aqi = replicate 100 JNull\<rparr>"
    by (simp add: history_ok_def)
  have a: "history_append (data_history initial_session) 36001000000 (JFloat (57/2)) (JInt 60) (JInt 45)
       = \<lparr>hist_time = [36001000000], hist_suhu = [JFloat (57/2)], hist_lembab = [JInt 60],
          hist_aqi = [JInt 45]\<rparr>"
    by (simp add: history_append_def initial_session_def deque_append_def)
  show ?thesis
    using history_window_invariant
      [where s = initial_session
         and ml = "\<lparr>ml_model = None, ml_scaler = None, ml_label_encoder = None\<rparr>"
         and ticks = "[\<lparr>deliveries = [\<lparr>item = \<lparr>ts = (10, 0, 0),
                                     payload = JDict [(''suhu'', JFloat (57/2)), (''lembab'', JInt 60),
                                                      (''local_aqi'', JInt 45)]\<rparr>,
                          clock = 36001000000, publish_raises = False\<rparr>],
          tick_now = 36001000000\<rparr>]"
         and d = "\<lparr>item = \<lparr>ts = (10, 0, 0),
                  payload = JDict [(''suhu'', JFloat (57/2)), (''lembab'', JInt 60),
                                   (''local_aqi'', JInt 45)]\<rparr>,
         clock = 36001000000, publish_raises = False\<rparr>"
         and suhu = "JFloat (57/2)" and lembab = "JInt 60" and adc_raw = "JInt 0"
         and local_aqi = "JInt 45" and aqi_category = "JStr ''N/A''" and r = False
         and hist = "\<lparr>hist_time = replicate 100 0, hist_suhu = replicate 100 JNull,
                  hist_lembab = replicate 100 JNull, hist_aqi = replicate 100 JNull\<rparr>"
         and now = 7]
      e h a
    by simp
qed

lemmas tick_eval_defs =
  run_ticks_def process_incoming_data_def process_item_def extract_sensor_values_def
  logger_sensor_data_def compares_def check_alerts_eval alert_rule_defs check_timeout_def
  strptime_HMS_def time_diff_usec_def time_of_day_def usec_per_day_def strftime_HMS_def
  on_message_item_def history_append_def deque_append_def initial_session_def Let_def

text \<open>
  The staleness check on one calendar day: the time difference is the time since the
  start of the second in which the message was received.
\<close>

lemma seconds_of_day_bound: "time_of_day t div 1000000 < 86400"
proof -
  have "time_of_day t < 86400 * 1000000"
    unfolding time_of_day_def usec_per_day_def by (rule mod_less_divisor) simp
  then show ?thesis by (rule less_mult_imp_div_less)
qed

lemma hms_split:
  fixes s :: nat
  shows "s div 3600 * 3600 + s mod 3600 div 60 * 60 + s mod 60 = s"
proof -
  have "s mod 3600 mod 60 = s mod 60" by (rule mod_mod_cancel) simp
  then have "s mod 3600 div 60 * 60 + s mod 60 = s mod 3600"
    using div_mult_mod_eq[of "s mod 3600" 60] by simp
  moreover have "s div 3600 * 3600 + s mod 3600 = s" by (rule div_mult_mod_eq)
  ultimately show ?thesis by linarith
qed

lemma hms_range:
  fixes s :: nat
  assumes "s < 86400"
  shows "s div 3600 < 24 \<and> s mod 3600 div 60 < 60 \<and> s mod 60 < 60"
proof -
  have "s < 24 * 3600" using assms by simp
  then have "s div 3600 < 24" by (rule less_mult_imp_div_less)
  moreover have "s mod 3600 < 60 * 60" by simp
  then have "s mod 3600 div 60 < 60" by (rule less_mult_imp_div_less)
  ultimately show ?thesis by simp
qed

lemma strptime_strftime: "strptime_HMS (strftime_HMS t) = Inr (strftime_HMS t)"
  using hms_range[OF seconds_of_day_bound[of t]]
  by (simp add: strptime_HMS_def strftime_HMS_def Let_def)

lemma time_diff_strftime:
  "time_diff_usec now (strftime_HMS received) =
     int (time_of_day now) - int (time_of_day received) + int (received mod 1000000)"
proof -
  define s where "s = time_of_day received div 1000000"
  have m: "time_of_day received mod 1000000 = received mod 1000000"
    unfolding time_of_day_def usec_per_day_def by (rule mod_mod_cancel) simp
  have "s * 1000000 + time_of_day received mod 1000000 = time_of_day received"
    unfolding s_def by (rule div_mult_mod_eq)
  then have "int (s * 1000000) = int (time_of_day received) - int (received mod 1000000)"
    unfolding m by linarith
  moreover have "time_diff_usec now (strftime_HMS received) = int (time_of_day now) - int (s * 1000000)"
    using hms_split[of s]
    by (simp add: time_diff_usec_def strftime_HMS_def Let_def s_def[symmetric])
  ultimately show ?thesis by linarith
qed

lemma same_day_elapsed:
  assumes "now div usec_per_day = received div usec_per_day"
  shows "int (time_of_day now) - int (time_of_day received) = int now - int received"
proof -
  have "now div usec_per_day * usec_per_day + time_of_day now = now"
       "received div usec_per_day * usec_per_day + time_of_day received = received"
    unfolding time_of_day_def by (rule div_mult_mod_eq)+
  with assms show ?thesis by (metis add_diff_cancel_left of_nat_add)
qed

lemma check_timeout_same_day:
  assumes "last_update s = Some (strftime_HMS received)"
      and "now div usec_per_day = received div usec_per_day"
  shows "mqtt_connected (check_timeout s now r) =
     (if int now - int received + int (received mod 1000000) > 30 * 1000000 then False
      else if r then True else mqtt_connected s)"
  using assms(1) time_diff_strftime[of now received] same_day_elapsed[OF assms(2)]
  by (simp add: check_timeout_def strptime_strftime)

text \<open>
  When the last message was received on the day of the check: more than 30 seconds
  after the receipt the flag is cleared, whether or not data came in this tick; up to
  29 seconds after it the flag is set if data came in this tick and is left as it was
  otherwise.
\<close>

theorem staleness_same_day:
  assumes "last_update s = Some (strftime_HMS received)"
      and "now div usec_per_day = received div usec_per_day"
  shows "(int now - int received > 30 * 1000000 \<longrightarrow> \<not> mqtt_connected (check_timeout s now r)) \<and>
         (int now - int received \<le> 29 * 1000000 \<longrightarrow>
            mqtt_connected (check_timeout s now r) = (r \<or> mqtt_connected s))"
proof -
  have "received mod 1000000 < 1000000" by simp
  then have "int (received mod 1000000) < 1000000" "0 \<le> int (received mod 1000000)" by linarith+
  then show ?thesis
    unfolding check_timeout_same_day[OF assms] by auto
qed

theorem staleness_same_day_witness:
  "last_update (initial_session\<lparr>last_update := Some (strftime_HMS 36000500000), mqtt_connected := True\<rparr>)
     = Some (10, 0, 0)
   \<and> \<not> mqtt_connected (check_timeout
        (initial_session\<lparr>last_update := Some (strftime_HMS 36000500000), mqtt_connected := True\<rparr>)
        36031500000 True)
   \<and> mqtt_connected (check_timeout
        (initial_session\<lparr>last_update := Some (strftime_HMS 36000500000), mqtt_connected := True\<rparr>)
        36029500000 False)"
  using staleness_same_day
    [of "initial_session\<lparr>last_update := Some (strftime_HMS 36000500000), mqtt_connected := True\<rparr>"
        36000500000 36031500000 True]
    staleness_same_day
    [of "initial_session\<lparr>last_update := Some (strftime_HMS 36000500000), mqtt_connected := True\<rparr>"
        36000500000 36029500000 False]
  by (simp add: usec_per_day_def strftime_HMS_def time_of_day_def)

text \<open>
  Claim C3. A message is received at 23:59:50 and taken off the queue one second later;
  the next tick comes 31 seconds after the receipt, at 00:00:21 of the next day, with an
  empty queue. The time stamp keeps no date, the difference of the times of day is
  negative, and the flag stays connected.
\<close>

theorem staleness_across_midnight:
  "on_message_item 86390000000
       (JDict [(''suhu'', JFloat (57/2)), (''lembab'', JInt 60), (''local_aqi'', JInt 45)])
     = \<lparr>ts = (23, 59, 50),
        payload = JDict [(''suhu'', JFloat (57/2)), (''lembab'', JInt 60), (''local_aqi'', JInt 45)]\<rparr>
   \<and> last_update (run_ticks \<lparr>ml_model = None, ml_scaler = None, ml_label_encoder = None\<rparr>
         initial_session
         [\<lparr>deliveries =
              [\<lparr>item = on_message_item 86390000000
                         (JDict [(''suhu'', JFloat (57/2)), (''lembab'', JInt 60),
                                 (''local_aqi'', JInt 45)]),
                clock = 86391000000, publish_raises = False\<rparr>],
           tick_now = 86391000000\<rparr>]) = Some (23, 59, 50)
   \<and> (86421000000::nat) - 86390000000 = 31 * 1000000
   \<and> mqtt_connected (run_ticks \<lparr>ml_model = None, ml_scaler = None, ml_label_encoder = None\<rparr>
         initial_session
         [\<lparr>deliveries =
              [\<lparr>item = on_message_item 86390000000
                         (JDict [(''suhu'', JFloat (57/2)), (''lembab'', JInt 60),
                                 (''local_aqi'', JInt 45)]),
                clock = 86391000000, publish_raises = False\<rparr>],
           tick_now = 86391000000\<rparr>,
          \<lparr>deliveries = [], tick_now = 86421000000\<rparr>])"
  by (simp add: tick_eval_defs)

lemma published_send:
  "published (fst (send_ml_prediction_to_esp32 raises s status confidence)) = published s \<or>
   (\<exists>msg. published (fst (send_ml_prediction_to_esp32 raises s status confidence))
            = published s @ [(TOPIC_COMMAND, msg)])"
  by (auto simp: send_ml_prediction_to_esp32_def split: sum.split)

lemma published_ml_step:
  "fst ` set (published (ml_step m ml raises s suhu lembab aqi))
     \<subseteq> insert TOPIC_COMMAND (fst ` set (published s))"
proof (cases "ml_infer m (ml_scaler ml) (ml_label_encoder ml) suhu lembab aqi")
  case (Inl e)
  then show ?thesis by (auto simp: ml_step_def)
next
  case (Inr r)
  obtain pred_text confidence where r: "r = (pred_text, confidence)" by (cases r)
  from published_send[of raises "s\<lparr>ml_prediction := (pred_text, confidence)\<rparr>" pred_text confidence]
  show ?thesis using Inr r by (auto simp: ml_step_def)
qed

lemma published_process_item:
  "fst ` set (published (fst (process_item ml (s, r) d)))
     \<subseteq> insert TOPIC_COMMAND (fst ` set (published s))"
proof (cases "extract_sensor_values (payload (item d))")
  case (Inl e)
  then show ?thesis by (auto simp: process_item_def Let_def)
next
  case (Inr x)
  obtain suhu lembab adc_raw local_aqi aqi_category
    where x: "x = (suhu, lembab, adc_raw, local_aqi, aqi_category)"
    by (cases x) auto
  define s2 where "s2 = s\<lparr>sensor_data := payload (item d), last_update := Some (ts (item d)),
      data_history := history_append (data_history s) (clock d) suhu lembab local_aqi\<rparr>"
  have ps2: "published s2 = published s" by (simp add: s2_def)
  have "published (fst (process_item ml (s, r) d)) = published s2 \<or>
        (\<exists>m. published (fst (process_item ml (s, r) d))
              = published (ml_step m ml (publish_raises d) s2 suhu lembab local_aqi))"
    using Inr x
    by (auto simp: process_item_def Let_def s2_def split: sum.split option.split)
  then show ?thesis
  proof
    assume "published (fst (process_item ml (s, r) d)) = published s2"
    with ps2 show ?thesis by auto
  next
    assume "\<exists>m. published (fst (process_item ml (s, r) d))
              = published (ml_step m ml (publish_raises d) s2 suhu lembab local_aqi)"
    then obtain m where p: "published (fst (process_item ml (s, r) d))
              = published (ml_step m ml (publish_raises d) s2 suhu lembab local_aqi)" by blast
    from published_ml_step[of m ml "publish_raises d" s2 suhu lembab local_aqi] show ?thesis
      unfolding p ps2 by simp
  qed
qed

lemma published_foldl:
  "fst ` set (published (fst (foldl (process_item ml) sr q)))
     \<subseteq> insert TOPIC_COMMAND (fst ` set (published (fst sr)))"
proof (induction q arbitrary: sr)
  case Nil
  show ?case by auto
next
  case (Cons d q)
  obtain s r where sr: "sr = (s, r)" by (cases sr)
  from Cons[of "process_item ml sr d"] published_process_item[of ml s r d]
  show ?case unfolding sr by auto
qed

lemma published_check_timeout [simp]:
  "published (check_timeout s now r) = published s"
  by (simp add: check_timeout_def split: option.split sum.split)

lemma published_process_incoming_data:
  "fst ` set (published (fst (process_incoming_data ml s q now)))
     \<subseteq> insert TOPIC_COMMAND (fst ` set (published s))"
  using published_foldl[of ml "(s, False)" q]
  by (cases "foldl (process_item ml) (s, False) q") (simp add: process_incoming_data_def)

text \<open>
  Claim C4. Whatever the ingestion loop publishes goes to the command topic: after a
  tick, the topics of the published messages are those published before and the
  command topic. For the message \<^verbatim>\<open>{suhu: 28.5, lembab: 60, local_aqi: 45}\<close> and a
  loaded model, the tick publishes the \<^verbatim>\<open>set_status\<close> command and nothing on the
  prediction topic.
\<close>

theorem ingestion_publishes_on_command_topic_only:
  "fst ` set (published (fst (process_incoming_data ml s q now)))
     \<subseteq> insert TOPIC_COMMAND (fst ` set (published s))
   \<and> TOPIC_PREDICTION \<noteq> TOPIC_COMMAND
   \<and> published (fst (process_incoming_data
        \<lparr>ml_model = Some \<lparr>predict = (\<lambda>X. Inr (ClassInt 0)),
                          predict_proba = Some (\<lambda>X. Inr [F64 (8106479329266893 / 2 ^ 53),
                                                         F64 (3602879701896397 / 2 ^ 55), F64 0])\<rparr>,
         ml_scaler = None, ml_label_encoder = None\<rparr>
        initial_session
        [\<lparr>item = \<lparr>ts = (10, 0, 0),
                   payload = JDict [(''suhu'', JFloat (57/2)), (''lembab'', JInt 60),
                                    (''local_aqi'', JInt 45)]\<rparr>,
          clock = 36001000000, publish_raises = False\<rparr>]
        36001000000))
     = [(TOPIC_COMMAND, JDict [(''cmd'', JStr ''set_status''), (''status'', JStr ''Aman''),
                               (''confidence'', JInt 90)])]"
proof -
  have "TOPIC_PREDICTION \<noteq> TOPIC_COMMAND"
    by (simp add: TOPIC_PREDICTION_def TOPIC_COMMAND_def)
  moreover have "published (fst (process_incoming_data
        \<lparr>ml_model = Some \<lparr>predict = (\<lambda>X. Inr (ClassInt 0)),
                          predict_proba = Some (\<lambda>X. Inr [F64 (8106479329266893 / 2 ^ 53),
                                                         F64 (3602879701896397 / 2 ^ 55), F64 0])\<rparr>,
         ml_scaler = None, ml_label_encoder = None\<rparr>
        initial_session
        [\<lparr>item = \<lparr>ts = (10, 0, 0),
                   payload = JDict [(''suhu'', JFloat (57/2)), (''lembab'', JInt 60),
                                    (''local_aqi'', JInt 45)]\<rparr>,
          clock = 36001000000, publish_raises = False\<rparr>]
        36001000000))
     = [(TOPIC_COMMAND, JDict [(''cmd'', JStr ''set_status''), (''status'', JStr ''Aman''),
                               (''confidence'', JInt 90)])]"
    using times_100_of_09
    by (simp add: tick_eval_defs ml_step_def ml_infer_def label_map_def
        send_ml_prediction_to_esp32_def confidence_int_def py_int_def del: times_100.simps)
  ultimately show ?thesis using published_process_incoming_data[of ml s q now] by simp
qed

section \<open>Properties of the worker\<close>

















end
